theory Spec2Isabelle
  imports Complex_Main "HOL-Library.Sublist" "HOL-Library.AList"
    "HOL-Library.List_Lexorder" "HOL-Library.Char_ord"
begin

section \<open>Values, errors and data frames\<close>

text \<open>
  The analysis scripts of \<^verbatim>\<open>CostAwarenessExperimentAndAnalysis\<close> work on pandas
  data frames. A float is a real number or the missing value \<open>NaN\<close> (rounding error of
  IEEE doubles is not modelled, and neither are the infinities); a cell holds a float
  or a string; a missing cell of any column is \<open>Num NaN\<close>, the value pandas' \<open>isna\<close>
  recognises. Exceptions are values of the type \<open>error\<close>, named after the Python
  exception raised.
\<close>

datatype pyfloat = NaN | Fin real

datatype cell = Num pyfloat | Str string

datatype error =
    FileNotFoundError
  | NotADirectoryError
  | JSONDecodeError
  | ParquetReadError
  | IndexError
  | KeyError string
  | ValueError string
  | TypeError

type_synonym row = "(string \<times> cell) list"

record dataframe =
  columns :: "string list"
  rows :: "row list"

definition isna :: "cell \<Rightarrow> bool" where
  "isna c = (c = Num NaN)"

text \<open>A row read at a column it does not carry gives the missing value.\<close>

definition cell_of :: "row \<Rightarrow> string \<Rightarrow> cell" where
  "cell_of r c = (case map_of r c of Some v \<Rightarrow> v | None \<Rightarrow> Num NaN)"

text \<open>\<^verbatim>\<open>df[c] = v\<close> for a scalar \<open>v\<close>: an existing column is overwritten in place, a new
  one is appended as the last column.\<close>

definition set_column :: "string \<Rightarrow> cell \<Rightarrow> dataframe \<Rightarrow> dataframe" where
  "set_column c v df =
     \<lparr> columns = (if c \<in> set (columns df) then columns df else columns df @ [c]),
       rows = map (AList.update c v) (rows df) \<rparr>"

text \<open>\<^verbatim>\<open>Series.unique()\<close>, and the keys of a dict built from a list: the distinct values
  in order of first appearance.\<close>

definition unique :: "'a list \<Rightarrow> 'a list" where
  "unique xs = rev (remdups (rev xs))"

text \<open>\<^verbatim>\<open>pd.concat(dfs, ignore_index=True)\<close>: the rows in order, over the union of the
  columns in order of first appearance.\<close>

definition concat_frames :: "dataframe list \<Rightarrow> dataframe" where
  "concat_frames dfs =
     \<lparr> columns = unique (concat (map columns dfs)), rows = concat (map rows dfs) \<rparr>"

text \<open>A loop that builds a list and stops at the first exception.\<close>

fun try_map :: "('a \<Rightarrow> error + 'b) \<Rightarrow> 'a list \<Rightarrow> error + 'b list" where
  "try_map f [] = Inr []"
| "try_map f (x # xs) =
     (case f x of
        Inl e \<Rightarrow> Inl e
      | Inr y \<Rightarrow> (case try_map f xs of Inl e \<Rightarrow> Inl e | Inr ys \<Rightarrow> Inr (y # ys)))"

subsection \<open>Series statistics\<close>

text \<open>pandas reductions skip missing values. \<open>std\<close> is the sample standard deviation
  (\<open>ddof = 1\<close>): with fewer than two values it is \<open>NaN\<close>.\<close>

fun dropna :: "pyfloat list \<Rightarrow> real list" where
  "dropna [] = []"
| "dropna (NaN # xs) = dropna xs"
| "dropna (Fin x # xs) = x # dropna xs"

definition mean_of :: "real list \<Rightarrow> real" where
  "mean_of vs = sum_list vs / real (length vs)"

definition series_mean :: "pyfloat list \<Rightarrow> pyfloat" where
  "series_mean xs = (let vs = dropna xs in if vs = [] then NaN else Fin (mean_of vs))"

definition series_std :: "pyfloat list \<Rightarrow> pyfloat" where
  "series_std xs =
     (let vs = dropna xs; n = length vs in
      if n \<le> 1 then NaN
      else Fin (sqrt (sum_list (map (\<lambda>x. (x - mean_of vs)\<^sup>2) vs) / real (n - 1))))"

text \<open>\<^verbatim>\<open>.round(4)\<close>: to four decimals, halves to the even neighbour.\<close>

definition round_half_even :: "real \<Rightarrow> int" where
  "round_half_even x =
     (let f = \<lfloor>x\<rfloor>; d = x - of_int f in
      if d < 1 / 2 then f else if 1 / 2 < d then f + 1 else if even f then f else f + 1)"

fun round4 :: "pyfloat \<Rightarrow> pyfloat" where
  "round4 NaN = NaN"
| "round4 (Fin x) = Fin (of_int (round_half_even (x * 10000)) / 10000)"

subsection \<open>Grouping\<close>

text \<open>
  \<^verbatim>\<open>groupby\<close> drops the rows whose key is missing, lists one group per distinct key in
  ascending key order, and keeps the rows of a group in their order in the table.
  Numbers are ordered by value and strings lexicographically; in a key column that
  mixes them the numbers are put first.
\<close>

fun cell_less :: "cell \<Rightarrow> cell \<Rightarrow> bool" where
  "cell_less (Num (Fin a)) (Num (Fin b)) = (a < b)"
| "cell_less (Str a) (Str b) = (a < b)"
| "cell_less (Num (Fin a)) (Str b) = True"
| "cell_less _ _ = False"

fun key_less :: "cell list \<Rightarrow> cell list \<Rightarrow> bool" where
  "key_less [] [] = False"
| "key_less [] (b # bs) = True"
| "key_less (a # as) [] = False"
| "key_less (a # as) (b # bs) = (cell_less a b \<or> (a = b \<and> key_less as bs))"

fun insort_by :: "('k \<Rightarrow> 'k \<Rightarrow> bool) \<Rightarrow> 'k \<Rightarrow> 'k list \<Rightarrow> 'k list" where
  "insort_by lt k [] = [k]"
| "insort_by lt k (x # xs) = (if lt x k then x # insort_by lt k xs else k # x # xs)"

definition sort_by :: "('k \<Rightarrow> 'k \<Rightarrow> bool) \<Rightarrow> 'k list \<Rightarrow> 'k list" where
  "sort_by lt ks = foldr (insort_by lt) ks []"

definition groupby_key ::
  "('k \<Rightarrow> 'k \<Rightarrow> bool) \<Rightarrow> ('r \<Rightarrow> 'k option) \<Rightarrow> 'r list \<Rightarrow> ('k \<times> 'r list) list" where
  "groupby_key lt key rs =
     map (\<lambda>k. (k, filter (\<lambda>r. key r = Some k) rs))
       (sort_by lt (remdups (List.map_filter key rs)))"

text \<open>The key of a row under a list of key columns; \<open>None\<close> when one of them is
  missing in the row.\<close>

definition row_key :: "string list \<Rightarrow> row \<Rightarrow> cell list option" where
  "row_key cols r =
     (let k = map (cell_of r) cols in if list_ex isna k then None else Some k)"

section \<open>Utils/util.py: aggregate\_runs\<close>

text \<open>
  \<^verbatim>\<open>
  def aggregate_runs(df, group_cols, metric_cols):
      agg_dict = {col: ['mean', 'std'] for col in metric_cols}
      if 'topology' not in group_cols and 'topology' in df.columns:
          group_cols.append('topology')
      if 'scheduler' not in group_cols and 'scheduler' in df.columns:
          group_cols.append('scheduler')
      grouped = df.groupby(group_cols).agg(agg_dict).round(4)
      return grouped
  \<close>
  \<open>group_cols\<close> is a Python list, passed by reference and appended to in place: the
  model returns the list as the call leaves it next to the result, also when the
  grouping then raises. The result is indexed by the group keys and has a mean and a
  std per metric. \<open>groupby\<close> raises \<open>KeyError\<close> for a key that is not a column and
  \<open>ValueError\<close> for an empty key list; \<open>agg\<close> raises \<open>KeyError\<close> for a metric that is
  not a column and \<open>TypeError\<close> for a column holding strings.
\<close>

record agg_row =
  group_key :: "cell list"
  stats :: "(string \<times> pyfloat \<times> pyfloat) list"

record agg_table =
  index_names :: "string list"
  agg_rows :: "agg_row list"

definition augment_group_cols :: "dataframe \<Rightarrow> string list \<Rightarrow> string list" where
  "augment_group_cols df group_cols =
     (let g1 = (if ''topology'' \<notin> set group_cols \<and> ''topology'' \<in> set (columns df)
                then group_cols @ [''topology''] else group_cols) in
      if ''scheduler'' \<notin> set g1 \<and> ''scheduler'' \<in> set (columns df)
      then g1 @ [''scheduler''] else g1)"

definition groupby :: "dataframe \<Rightarrow> string list \<Rightarrow> error + (cell list \<times> row list) list" where
  "groupby df group_cols =
     (if group_cols = [] then Inl (ValueError ''No group keys passed!'')
      else case filter (\<lambda>c. c \<notin> set (columns df)) group_cols of
        c # _ \<Rightarrow> Inl (KeyError c)
      | [] \<Rightarrow> Inr (groupby_key key_less (row_key group_cols) (rows df)))"

fun float_of :: "cell \<Rightarrow> pyfloat" where
  "float_of (Num x) = x"
| "float_of (Str s) = NaN"

definition is_str :: "cell \<Rightarrow> bool" where
  "is_str c = (case c of Str s \<Rightarrow> True | Num x \<Rightarrow> False)"

definition metric_values :: "row list \<Rightarrow> string \<Rightarrow> pyfloat list" where
  "metric_values rs m = map (\<lambda>r. float_of (cell_of r m)) rs"

definition agg_group :: "string list \<Rightarrow> cell list \<times> row list \<Rightarrow> agg_row" where
  "agg_group metrics g =
     \<lparr> group_key = fst g,
       stats = map (\<lambda>m. (m, round4 (series_mean (metric_values (snd g) m)),
                             round4 (series_std (metric_values (snd g) m)))) metrics \<rparr>"

definition agg_mean_std ::
  "dataframe \<Rightarrow> string list \<Rightarrow> string list \<Rightarrow> (cell list \<times> row list) list \<Rightarrow> error + agg_table" where
  "agg_mean_std df group_cols metric_cols groups =
     (let metrics = unique metric_cols in
      case filter (\<lambda>m. m \<notin> set (columns df)) metrics of
        m # _ \<Rightarrow> Inl (KeyError m)
      | [] \<Rightarrow>
          if list_ex (\<lambda>m. list_ex (\<lambda>r. is_str (cell_of r m)) (rows df)) metrics
          then Inl TypeError
          else Inr \<lparr> index_names = group_cols, agg_rows = map (agg_group metrics) groups \<rparr>)"

definition aggregate_runs ::
  "dataframe \<Rightarrow> string list \<Rightarrow> string list \<Rightarrow> (error + agg_table) \<times> string list" where
  "aggregate_runs df group_cols metric_cols =
     (let group_cols' = augment_group_cols df group_cols in
      ((case groupby df group_cols' of
          Inl e \<Rightarrow> Inl e
        | Inr groups \<Rightarrow> agg_mean_std df group_cols' metric_cols groups),
       group_cols'))"

section \<open>Strings and paths\<close>

text \<open>Names are ASCII. \<^verbatim>\<open>str.isdigit\<close> holds of a non-empty string of decimal digits, and
  \<^verbatim>\<open>int\<close> of such a string is its decimal value.\<close>

definition is_digit :: "char \<Rightarrow> bool" where
  "is_digit c = (c \<in> set ''0123456789'')"

definition isdigit :: "string \<Rightarrow> bool" where
  "isdigit s = (s \<noteq> [] \<and> list_all is_digit s)"

definition nat_of_digits :: "string \<Rightarrow> nat" where
  "nat_of_digits s = foldl (\<lambda>n c. 10 * n + (of_char c - 48)) 0 s"

text \<open>\<^verbatim>\<open>int(s)\<close> for any string: surrounding white space is dropped, a sign may lead, and
  the digits may be separated by single underscores; anything else is a \<open>ValueError\<close>
  (\<open>None\<close> here).\<close>

definition is_space :: "char \<Rightarrow> bool" where
  "is_space c = (c = CHR '' '' \<or> (9 \<le> (of_char c :: nat) \<and> (of_char c :: nat) \<le> 13)
                 \<or> (28 \<le> (of_char c :: nat) \<and> (of_char c :: nat) \<le> 31))"

definition strip :: "string \<Rightarrow> string" where
  "strip s = rev (dropWhile is_space (rev (dropWhile is_space s)))"

fun digits_ok :: "string \<Rightarrow> bool" where
  "digits_ok [] = False"
| "digits_ok [c] = is_digit c"
| "digits_ok (c # d # cs) =
     (if is_digit c then (if d = CHR ''_'' then digits_ok cs else digits_ok (d # cs)) else False)"

definition unsigned_int :: "string \<Rightarrow> int option" where
  "unsigned_int body =
     (if digits_ok body then Some (int (nat_of_digits (filter (\<lambda>c. c \<noteq> CHR ''_'') body)))
      else None)"

definition py_int :: "string \<Rightarrow> int option" where
  "py_int s =
     (case strip s of
        [] \<Rightarrow> None
      | c # cs \<Rightarrow>
          if c = CHR ''-'' then map_option uminus (unsigned_int cs)
          else if c = CHR ''+'' then unsigned_int cs
          else unsigned_int (c # cs))"

fun split_on :: "char \<Rightarrow> string \<Rightarrow> string list" where
  "split_on d [] = [[]]"
| "split_on d (c # cs) =
     (if c = d then [] # split_on d cs
      else case split_on d cs of p # ps \<Rightarrow> (c # p) # ps | [] \<Rightarrow> [[c]])"

definition lower_char :: "char \<Rightarrow> char" where
  "lower_char c =
     (case map_of (zip ''ABCDEFGHIJKLMNOPQRSTUVWXYZ'' ''abcdefghijklmnopqrstuvwxyz'') c of
        Some l \<Rightarrow> l
      | None \<Rightarrow> c)"

definition lower :: "string \<Rightarrow> string" where
  "lower s = map lower_char s"

text \<open>\<^verbatim>\<open>os.path.join\<close>, \<^verbatim>\<open>os.path.basename\<close> on POSIX paths.\<close>

definition join2 :: "string \<Rightarrow> string \<Rightarrow> string" where
  "join2 a b =
     (if b \<noteq> [] \<and> hd b = CHR ''/'' then b
      else if a = [] \<or> last a = CHR ''/'' then a @ b
      else a @ ''/'' @ b)"

fun path_join :: "string list \<Rightarrow> string" where
  "path_join [] = []"
| "path_join (p # ps) = foldl join2 p ps"

definition basename :: "string \<Rightarrow> string" where
  "basename p = rev (takeWhile (\<lambda>c. c \<noteq> CHR ''/'') (rev p))"

section \<open>The files of one experiment\<close>

text \<open>
  For a base path and a cost pattern the scripts read
  \<^verbatim>\<open><base>/cost_comparison/<pattern>/cost_experiment_<pattern>/trackr.json\<close> and the tree
  under \<^verbatim>\<open>.../raw-output\<close>. The registry is an array of objects; an entry may lack
  \<^verbatim>\<open>topology\<close> or \<^verbatim>\<open>allocationPolicy\<close> (\<open>None\<close>), or have the object without its
  \<^verbatim>\<open>pathToFile\<close> or \<^verbatim>\<open>policyType\<close> (\<open>Some None\<close>). A directory lists its entries in the
  order \<^verbatim>\<open>os.listdir\<close> returns them. \<open>raw_output\<close> is \<open>None\<close> when the directory does not
  exist. A file is a parquet table or something \<^verbatim>\<open>pd.read_parquet\<close> cannot read; reading
  a directory as a table is taken to fail as well.
\<close>

record scenario_info =
  topology :: "string option option"
  allocationPolicy :: "string option option"

datatype trackr_file = Absent | Malformed | Registry "scenario_info list"

datatype node = Dir "(string \<times> node) list" | Parquet dataframe | Unreadable

record experiment_dir =
  trackr_json :: trackr_file
  raw_output :: "(string \<times> node) list option"

type_synonym filesystem = "string \<Rightarrow> string \<Rightarrow> experiment_dir"

definition pattern_path :: "string \<Rightarrow> string \<Rightarrow> string" where
  "pattern_path base_path cost_pattern =
     path_join [base_path, ''cost_comparison'', cost_pattern,
                ''cost_experiment_'' @ cost_pattern, ''raw-output'']"

text \<open>\<^verbatim>\<open>os.path.exists(os.path.join(dir, name))\<close> and the node found there.\<close>

fun dir_entry :: "node \<Rightarrow> string \<Rightarrow> node option" where
  "dir_entry (Dir entries) name = map_of entries name"
| "dir_entry _ name = None"

fun read_parquet :: "node \<Rightarrow> error + dataframe" where
  "read_parquet (Parquet df) = Inr df"
| "read_parquet _ = Inl ParquetReadError"

text \<open>\<^verbatim>\<open>int(seed_dir.split('=')[1])\<close>\<close>

definition seed_of :: "string \<Rightarrow> error + int" where
  "seed_of seed_dir =
     (case split_on (CHR ''='') seed_dir of
        p # q # ps \<Rightarrow>
          (case py_int q of
             Some n \<Rightarrow> Inr n
           | None \<Rightarrow> Inl (ValueError ''invalid literal for int() with base 10''))
      | _ \<Rightarrow> Inl IndexError)"

section \<open>Utils/util.py: read\_trackr and read\_parquet\_files\<close>

definition read_trackr :: "filesystem \<Rightarrow> string \<Rightarrow> string \<Rightarrow> error + scenario_info list" where
  "read_trackr fs base_path cost_pattern =
     (case trackr_json (fs base_path cost_pattern) of
        Absent \<Rightarrow> Inl FileNotFoundError
      | Malformed \<Rightarrow> Inl JSONDecodeError
      | Registry trackr_data \<Rightarrow> Inr trackr_data)"

text \<open>\<^verbatim>\<open>re.search(r'topology_(small|medium|large)', path)\<close>: the group of the leftmost
  match.\<close>

fun re_search_topology :: "string \<Rightarrow> string option" where
  "re_search_topology [] = None"
| "re_search_topology (c # cs) =
     (if prefix ''topology_small'' (c # cs) then Some ''small''
      else if prefix ''topology_medium'' (c # cs) then Some ''medium''
      else if prefix ''topology_large'' (c # cs) then Some ''large''
      else re_search_topology cs)"

definition tag_table :: "cell \<Rightarrow> cell \<Rightarrow> nat \<Rightarrow> int \<Rightarrow> dataframe \<Rightarrow> dataframe" where
  "tag_table topo sched scen seed df =
     set_column ''seed'' (Num (Fin (of_int seed)))
       (set_column ''scenario'' (Num (Fin (of_nat scen)))
          (set_column ''scheduler'' sched
             (set_column ''topology'' topo df)))"

text \<open>
  The two loops of \<^verbatim>\<open>read_parquet_files\<close> carry the list \<open>dfs\<close> of the tables read so
  far. Each returns the list as it stands when the loop ends or raises, and the
  exception raised, if any.
  \<^verbatim>\<open>
      for seed_dir in os.listdir(scenario_path):
          if not seed_dir.startswith("seed="):
              continue
          file_path = os.path.join(scenario_path, seed_dir, f"{file_type}.parquet")
          if not os.path.exists(file_path):
              continue
          df = pd.read_parquet(file_path)
          df['topology'] = topology
          df['scheduler'] = scheduler
          df['scenario'] = int(scenario_num)
          df['seed'] = int(seed_dir.split('=')[1])
          dfs.append(df)
  \<close>
\<close>

fun read_seeds ::
  "string \<Rightarrow> string \<Rightarrow> string \<Rightarrow> nat \<Rightarrow> (string \<times> node) list \<Rightarrow> dataframe list
   \<Rightarrow> dataframe list \<times> error option" where
  "read_seeds file_type topo sched scen [] dfs = (dfs, None)"
| "read_seeds file_type topo sched scen ((seed_dir, nd) # rest) dfs =
     (if \<not> prefix ''seed='' seed_dir then read_seeds file_type topo sched scen rest dfs
      else case dir_entry nd (file_type @ ''.parquet'') of
        None \<Rightarrow> read_seeds file_type topo sched scen rest dfs
      | Some f \<Rightarrow>
          (case read_parquet f of
             Inl e \<Rightarrow> (dfs, Some e)
           | Inr df \<Rightarrow>
               (case seed_of seed_dir of
                  Inl e \<Rightarrow> (dfs, Some e)
                | Inr seed \<Rightarrow>
                    read_seeds file_type topo sched scen rest
                      (dfs @ [tag_table (Str topo) (Str sched) scen seed df]))))"

text \<open>
  \<^verbatim>\<open>
      for scenario_num in os.listdir(pattern_path):
          if not scenario_num.isdigit():
              continue
          scenario_path = os.path.join(pattern_path, scenario_num)
          scenario_info = trackr_data[int(scenario_num)]
          match = re.search(r'topology_(small|medium|large)',
                            scenario_info['topology']['pathToFile'])
          topology = match.group(1) if match else 'unknown'
          scheduler = scenario_info['allocationPolicy']['policyType']
          for seed_dir in os.listdir(scenario_path): ...
  \<close>
\<close>

fun read_scenarios ::
  "scenario_info list \<Rightarrow> string \<Rightarrow> (string \<times> node) list \<Rightarrow> dataframe list
   \<Rightarrow> dataframe list \<times> error option" where
  "read_scenarios trackr_data file_type [] dfs = (dfs, None)"
| "read_scenarios trackr_data file_type ((scenario_num, nd) # rest) dfs =
     (if \<not> isdigit scenario_num then read_scenarios trackr_data file_type rest dfs
      else if length trackr_data \<le> nat_of_digits scenario_num then (dfs, Some IndexError)
      else
        let scenario_info = trackr_data ! nat_of_digits scenario_num in
        case topology scenario_info of
          None \<Rightarrow> (dfs, Some (KeyError ''topology''))
        | Some None \<Rightarrow> (dfs, Some (KeyError ''pathToFile''))
        | Some (Some path) \<Rightarrow>
            let topo = (case re_search_topology path of Some g \<Rightarrow> g | None \<Rightarrow> ''unknown'') in
            (case allocationPolicy scenario_info of
               None \<Rightarrow> (dfs, Some (KeyError ''allocationPolicy''))
             | Some None \<Rightarrow> (dfs, Some (KeyError ''policyType''))
             | Some (Some scheduler) \<Rightarrow>
                 (case nd of
                    Dir entries \<Rightarrow>
                      (case read_seeds file_type topo scheduler (nat_of_digits scenario_num) entries dfs of
                         (dfs', None) \<Rightarrow> read_scenarios trackr_data file_type rest dfs'
                       | (dfs', Some e) \<Rightarrow> (dfs', Some e))
                  | _ \<Rightarrow> (dfs, Some NotADirectoryError))))"

definition read_parquet_files ::
  "filesystem \<Rightarrow> string \<Rightarrow> string \<Rightarrow> string \<Rightarrow> error + dataframe" where
  "read_parquet_files fs base_path cost_pattern file_type =
     (case read_trackr fs base_path cost_pattern of
        Inl e \<Rightarrow> Inl e
      | Inr trackr_data \<Rightarrow>
          (case raw_output (fs base_path cost_pattern) of
             None \<Rightarrow> Inl FileNotFoundError
           | Some listing \<Rightarrow>
               (case read_scenarios trackr_data file_type listing [] of
                  (dfs, Some e) \<Rightarrow> Inl e
                | (dfs, None) \<Rightarrow>
                    if dfs = []
                    then Inl (ValueError (''No '' @ file_type @ ''.parquet files found for ''
                                           @ cost_pattern @ '' pattern.''))
                    else Inr (concat_frames dfs))))"

section \<open>more\_analysis.py: labels and load\_data\<close>

text \<open>
  \<^verbatim>\<open>get_scheduler_info(scenario_path)\<close> opens the \<^verbatim>\<open>trackr.json\<close> two directories above
  the scenario directory, which is the registry of the experiment; the model is given
  that experiment directory and the path string.
  \<^verbatim>\<open>
      try:
          ...
          if os.path.exists(trackr_path):
              with open(trackr_path, 'r') as f:
                  configs = json.load(f)
                  scenario_num = int(os.path.basename(scenario_path))
                  if scenario_num < len(configs):
                      config = configs[scenario_num]
                      scheduler = config.get('allocationPolicy', {}).get('policyType', 'Unknown')
                      return scheduler
          if "simplecost" in scenario_path.lower():
              return "SimpleCost"
          elif "costefficient" in scenario_path.lower():
              return "CostEfficient"
          elif "predictivecost" in scenario_path.lower():
              return "PredictiveCost"
          return "Unknown"
      except Exception as e:
          return "Unknown"
  \<close>
\<close>

text \<open>Python list indexing: a negative index counts from the end.\<close>

definition py_index :: "'a list \<Rightarrow> int \<Rightarrow> 'a option" where
  "py_index xs i =
     (if 0 \<le> i \<and> i < int (length xs) then Some (xs ! nat i)
      else if i < 0 \<and> - int (length xs) \<le> i then Some (xs ! nat (int (length xs) + i))
      else None)"

definition policy_of :: "scenario_info \<Rightarrow> string" where
  "policy_of config = (case allocationPolicy config of Some (Some p) \<Rightarrow> p | _ \<Rightarrow> ''Unknown'')"

definition scheduler_from_path :: "string \<Rightarrow> string" where
  "scheduler_from_path scenario_path =
     (if sublist ''simplecost'' (lower scenario_path) then ''SimpleCost''
      else if sublist ''costefficient'' (lower scenario_path) then ''CostEfficient''
      else if sublist ''predictivecost'' (lower scenario_path) then ''PredictiveCost''
      else ''Unknown'')"

definition get_scheduler_info :: "experiment_dir \<Rightarrow> string \<Rightarrow> string" where
  "get_scheduler_info edir scenario_path =
     (case trackr_json edir of
        Absent \<Rightarrow> scheduler_from_path scenario_path
      | Malformed \<Rightarrow> ''Unknown''
      | Registry configs \<Rightarrow>
          (case py_int (basename scenario_path) of
             None \<Rightarrow> ''Unknown''
           | Some scenario_num \<Rightarrow>
               if scenario_num < int (length configs)
               then (case py_index configs scenario_num of
                       None \<Rightarrow> ''Unknown''
                     | Some config \<Rightarrow> policy_of config)
               else scheduler_from_path scenario_path))"

text \<open>\<^verbatim>\<open>parse_topology_size\<close>: the size named in the registry's topology path, else the
  size named in the scenario path, else \<open>unknown\<close>. Any exception while reading the
  registry is logged and the scenario path is tried.\<close>

definition size_in :: "string \<Rightarrow> string option" where
  "size_in text =
     (if sublist ''small'' (lower text) then Some ''small''
      else if sublist ''medium'' (lower text) then Some ''medium''
      else if sublist ''large'' (lower text) then Some ''large''
      else None)"

definition topology_path_of :: "scenario_info \<Rightarrow> string" where
  "topology_path_of config = (case topology config of Some (Some p) \<Rightarrow> p | _ \<Rightarrow> [])"

definition parse_topology_size :: "experiment_dir \<Rightarrow> string \<Rightarrow> string" where
  "parse_topology_size edir scenario_path =
     (let from_path = (case size_in scenario_path of Some s \<Rightarrow> s | None \<Rightarrow> ''unknown'') in
      case trackr_json edir of
        Absent \<Rightarrow> from_path
      | Malformed \<Rightarrow> from_path
      | Registry configs \<Rightarrow>
          (case py_int (basename scenario_path) of
             None \<Rightarrow> from_path
           | Some scenario_num \<Rightarrow>
               if scenario_num < int (length configs)
               then (case py_index configs scenario_num of
                       None \<Rightarrow> from_path
                     | Some config \<Rightarrow>
                         (case size_in (topology_path_of config) of
                            Some s \<Rightarrow> s
                          | None \<Rightarrow> from_path))
               else from_path))"

text \<open>
  \<^verbatim>\<open>load_data\<close> reads the host and the task table of every seed directory. One
  \<^verbatim>\<open>try\<close> covers both reads of a seed directory: an exception there is logged and the
  loop goes on with the next seed directory, keeping what was appended before.
  \<^verbatim>\<open>
          for seed_dir in os.listdir(scenario_path):
              if not seed_dir.startswith("seed="):
                  continue
              host_path = os.path.join(scenario_path, seed_dir, "host.parquet")
              task_path = os.path.join(scenario_path, seed_dir, "task.parquet")
              try:
                  if os.path.exists(host_path):
                      df = pd.read_parquet(host_path)
                      df['scheduler'] = get_scheduler_info(scenario_path)
                      df['topology'] = parse_topology_size(scenario_path)
                      df['scenario'] = int(scenario)
                      df['seed'] = int(seed_dir.split('=')[1])
                      host_dfs.append(df)
                  if os.path.exists(task_path):
                      ... the same for task_dfs
              except Exception as e:
                  continue
      if not host_dfs or not task_dfs:
          raise ValueError("No data loaded")
      return pd.concat(host_dfs, ignore_index=True), pd.concat(task_dfs, ignore_index=True)
  \<close>
\<close>

definition load_table ::
  "experiment_dir \<Rightarrow> string \<Rightarrow> string \<Rightarrow> string \<Rightarrow> node \<Rightarrow> error + dataframe" where
  "load_table edir scenario_path scenario seed_dir f =
     (case read_parquet f of
        Inl e \<Rightarrow> Inl e
      | Inr df \<Rightarrow>
          (case seed_of seed_dir of
             Inl e \<Rightarrow> Inl e
           | Inr seed \<Rightarrow>
               Inr (set_column ''seed'' (Num (Fin (of_int seed)))
                     (set_column ''scenario'' (Num (Fin (of_nat (nat_of_digits scenario))))
                       (set_column ''topology'' (Str (parse_topology_size edir scenario_path))
                         (set_column ''scheduler'' (Str (get_scheduler_info edir scenario_path))
                            df))))))"

fun load_seeds ::
  "experiment_dir \<Rightarrow> string \<Rightarrow> string \<Rightarrow> (string \<times> node) list
   \<Rightarrow> dataframe list \<times> dataframe list \<Rightarrow> dataframe list \<times> dataframe list" where
  "load_seeds edir scenario_path scenario [] dfs = dfs"
| "load_seeds edir scenario_path scenario ((seed_dir, nd) # rest) (host_dfs, task_dfs) =
     (if \<not> prefix ''seed='' seed_dir
      then load_seeds edir scenario_path scenario rest (host_dfs, task_dfs)
      else
        case (case dir_entry nd ''host.parquet'' of
                None \<Rightarrow> Inr host_dfs
              | Some f \<Rightarrow>
                  (case load_table edir scenario_path scenario seed_dir f of
                     Inl e \<Rightarrow> Inl e
                   | Inr df \<Rightarrow> Inr (host_dfs @ [df]))) of
          Inl e \<Rightarrow> load_seeds edir scenario_path scenario rest (host_dfs, task_dfs)
        | Inr host_dfs' \<Rightarrow>
            (case dir_entry nd ''task.parquet'' of
               None \<Rightarrow> load_seeds edir scenario_path scenario rest (host_dfs', task_dfs)
             | Some f \<Rightarrow>
                 (case load_table edir scenario_path scenario seed_dir f of
                    Inl e \<Rightarrow> load_seeds edir scenario_path scenario rest (host_dfs', task_dfs)
                  | Inr df \<Rightarrow>
                      load_seeds edir scenario_path scenario rest (host_dfs', task_dfs @ [df]))))"

fun load_scenarios ::
  "experiment_dir \<Rightarrow> string \<Rightarrow> (string \<times> node) list
   \<Rightarrow> dataframe list \<times> dataframe list \<Rightarrow> error + dataframe list \<times> dataframe list" where
  "load_scenarios edir raw_root [] dfs = Inr dfs"
| "load_scenarios edir raw_root ((scenario, nd) # rest) dfs =
     (if \<not> isdigit scenario then load_scenarios edir raw_root rest dfs
      else case nd of
        Dir entries \<Rightarrow>
          load_scenarios edir raw_root rest
            (load_seeds edir (path_join [raw_root, scenario]) scenario entries dfs)
      | _ \<Rightarrow> Inl NotADirectoryError)"

definition load_data ::
  "filesystem \<Rightarrow> string \<Rightarrow> string \<Rightarrow> error + dataframe \<times> dataframe" where
  "load_data fs base_path cost_pattern =
     (case raw_output (fs base_path cost_pattern) of
        None \<Rightarrow> Inl FileNotFoundError
      | Some listing \<Rightarrow>
          (case load_scenarios (fs base_path cost_pattern)
                  (pattern_path base_path cost_pattern) listing ([], []) of
             Inl e \<Rightarrow> Inl e
           | Inr (host_dfs, task_dfs) \<Rightarrow>
               if host_dfs = [] \<or> task_dfs = [] then Inl (ValueError ''No data loaded'')
               else Inr (concat_frames host_dfs, concat_frames task_dfs)))"

section \<open>analyze\_experiments.py: task completion and the comparison table\<close>

subsection \<open>More series operations\<close>

text \<open>\<^verbatim>\<open>GroupBy.last()\<close> takes, per column, the last value of the group that is not
  missing, and the missing value when there is none.\<close>

definition last_valid :: "cell list \<Rightarrow> cell" where
  "last_valid cs = (case filter (\<lambda>c. \<not> isna c) cs of [] \<Rightarrow> Num NaN | v # vs \<Rightarrow> last (v # vs))"

definition final_cell :: "row list \<Rightarrow> string \<Rightarrow> cell" where
  "final_cell g c = last_valid (map (\<lambda>r. cell_of r c) g)"

definition notna_key :: "cell \<Rightarrow> cell option" where
  "notna_key c = (if isna c then None else Some c)"

text \<open>Subtracting two columns raises \<open>TypeError\<close> on a string (\<open>None\<close> here); a missing
  operand gives a missing difference.\<close>

fun cell_sub :: "cell \<Rightarrow> cell \<Rightarrow> pyfloat option" where
  "cell_sub (Num (Fin a)) (Num (Fin b)) = Some (Fin (a - b))"
| "cell_sub (Num a) (Num b) = Some NaN"
| "cell_sub a b = None"

fun fdiv :: "pyfloat \<Rightarrow> real \<Rightarrow> pyfloat" where
  "fdiv NaN d = NaN"
| "fdiv (Fin x) d = Fin (x / d)"

definition median_of :: "real list \<Rightarrow> real" where
  "median_of vs =
     (let s = sort vs; n = length s in
      if odd n then s ! (n div 2) else (s ! (n div 2 - 1) + s ! (n div 2)) / 2)"

definition series_median :: "pyfloat list \<Rightarrow> pyfloat" where
  "series_median xs = (let vs = dropna xs in if vs = [] then NaN else Fin (median_of vs))"

definition series_min :: "pyfloat list \<Rightarrow> pyfloat" where
  "series_min xs = (case dropna xs of [] \<Rightarrow> NaN | v # vs \<Rightarrow> Fin (fold min vs v))"

definition series_max :: "pyfloat list \<Rightarrow> pyfloat" where
  "series_max xs = (case dropna xs of [] \<Rightarrow> NaN | v # vs \<Rightarrow> Fin (fold max vs v))"

subsection \<open>ExperimentAnalyzer.analyze\_task\_completion\<close>

text \<open>
  \<^verbatim>\<open>
      scenario_stats = {}
      unique_scenarios = self.task_df['scenario_label'].unique()
      for scenario in unique_scenarios:
          scenario_tasks = self.task_df[self.task_df['scenario_label'] == scenario]
          task_final_states = scenario_tasks.groupby('task_id').last()
          state_counts = task_final_states['task_state'].value_counts()
          total_tasks = len(task_final_states)
          completed_tasks = task_final_states[task_final_states['task_state'] == 'COMPLETED']
          if len(completed_tasks) > 0:
              completion_times = (completed_tasks['finish_time'] - completed_tasks['creation_time']) / 1000.0
          else:
              completion_times = pd.Series(dtype=float)
          metrics = {
              'total_tasks': total_tasks,
              'completion_rate': state_counts.get('COMPLETED', 0) / total_tasks if total_tasks > 0 else 0,
              'termination_rate': state_counts.get('TERMINATED', 0) / total_tasks if total_tasks > 0 else 0,
              'error_rate': state_counts.get('ERROR', 0) / total_tasks if total_tasks > 0 else 0,
              'avg_completion_time': completion_times.mean() if not completion_times.empty else None,
              ... median, std, min, max likewise
          }
          scenario_stats[scenario] = metrics
      stats_df = pd.DataFrame.from_dict(scenario_stats, orient='index')
  \<close>
  A statistic of the completion times is \<open>None\<close> for Python's \<open>None\<close> and \<open>Some NaN\<close>
  for a float that is not a number. \<open>scenario_metrics\<close> is the body of the loop and
  \<open>scenario_stats\<close> the dict the loop leaves: one entry per scenario label, in order of
  first appearance in the task table. The method goes on to draw three plots from the
  task table and the frame of the dict, and returns that frame when none of them raises;
  the plots are not modelled, and nothing below is stated about the value the method
  returns.
\<close>

record task_metrics =
  total_tasks :: nat
  completion_rate :: real
  termination_rate :: real
  error_rate :: real
  avg_completion_time :: "pyfloat option"
  median_completion_time :: "pyfloat option"
  std_completion_time :: "pyfloat option"
  min_completion_time :: "pyfloat option"
  max_completion_time :: "pyfloat option"

definition scenario_tasks :: "dataframe \<Rightarrow> cell \<Rightarrow> row list" where
  "scenario_tasks task_df scenario =
     filter (\<lambda>r. \<not> isna scenario \<and> cell_of r ''scenario_label'' = scenario) (rows task_df)"

definition task_final_states :: "row list \<Rightarrow> (cell \<times> row list) list" where
  "task_final_states tasks =
     groupby_key cell_less (\<lambda>r. notna_key (cell_of r ''task_id'')) tasks"

definition state_count :: "cell list \<Rightarrow> string \<Rightarrow> nat" where
  "state_count final_states st = length (filter (\<lambda>c. c = Str st) final_states)"

definition state_rate :: "cell list \<Rightarrow> string \<Rightarrow> nat \<Rightarrow> real" where
  "state_rate final_states st n_tasks =
     (if n_tasks > 0 then real (state_count final_states st) / real n_tasks else 0)"

definition completion_times_of ::
  "dataframe \<Rightarrow> (cell \<times> row list) list \<Rightarrow> error + pyfloat list" where
  "completion_times_of task_df completed_tasks =
     (if completed_tasks = [] then Inr []
      else if ''finish_time'' \<notin> set (columns task_df) then Inl (KeyError ''finish_time'')
      else if ''creation_time'' \<notin> set (columns task_df) then Inl (KeyError ''creation_time'')
      else
        case those (map (\<lambda>g. cell_sub (final_cell (snd g) ''finish_time'')
                                      (final_cell (snd g) ''creation_time'')) completed_tasks) of
          None \<Rightarrow> Inl TypeError
        | Some deltas \<Rightarrow> Inr (map (\<lambda>d. fdiv d 1000) deltas))"

definition stat_or_none :: "(pyfloat list \<Rightarrow> pyfloat) \<Rightarrow> pyfloat list \<Rightarrow> pyfloat option" where
  "stat_or_none f completion_times = (if completion_times \<noteq> [] then Some (f completion_times) else None)"

definition scenario_metrics :: "dataframe \<Rightarrow> cell \<Rightarrow> error + task_metrics" where
  "scenario_metrics task_df scenario =
     (if ''task_id'' \<notin> set (columns task_df) then Inl (KeyError ''task_id'')
      else if ''task_state'' \<notin> set (columns task_df) then Inl (KeyError ''task_state'')
      else
        let finals = task_final_states (scenario_tasks task_df scenario);
            final_states = map (\<lambda>g. final_cell (snd g) ''task_state'') finals;
            n_tasks = length finals;
            completed_tasks = filter (\<lambda>g. final_cell (snd g) ''task_state'' = Str ''COMPLETED'') finals
        in case completion_times_of task_df completed_tasks of
             Inl e \<Rightarrow> Inl e
           | Inr completion_times \<Rightarrow>
               Inr \<lparr> total_tasks = n_tasks,
                     completion_rate = state_rate final_states ''COMPLETED'' n_tasks,
                     termination_rate = state_rate final_states ''TERMINATED'' n_tasks,
                     error_rate = state_rate final_states ''ERROR'' n_tasks,
                     avg_completion_time = stat_or_none series_mean completion_times,
                     median_completion_time = stat_or_none series_median completion_times,
                     std_completion_time = stat_or_none series_std completion_times,
                     min_completion_time = stat_or_none series_min completion_times,
                     max_completion_time = stat_or_none series_max completion_times \<rparr>)"

fun collect_stats :: "('k \<Rightarrow> error + 'v) \<Rightarrow> 'k list \<Rightarrow> error + ('k \<times> 'v) list" where
  "collect_stats f [] = Inr []"
| "collect_stats f (k # ks) =
     (case f k of
        Inl e \<Rightarrow> Inl e
      | Inr v \<Rightarrow> (case collect_stats f ks of Inl e \<Rightarrow> Inl e | Inr kvs \<Rightarrow> Inr ((k, v) # kvs)))"

definition scenario_stats :: "dataframe \<Rightarrow> error + (cell \<times> task_metrics) list" where
  "scenario_stats task_df =
     (if ''scenario_label'' \<notin> set (columns task_df) then Inl (KeyError ''scenario_label'')
      else collect_stats (scenario_metrics task_df)
             (unique (map (\<lambda>r. cell_of r ''scenario_label'') (rows task_df))))"

subsection \<open>ExperimentAnalyzer.comparative\_analysis\<close>

text \<open>
  \<^verbatim>\<open>
      try:
          comparison_rows = []
          for _, row in cost_metrics_df.iterrows():
              scen_label = row['scenario_label']
              topology = row['topology']
              scheduler = row['scheduler']
              if scen_label in completion_stats_df.index:
                  comp_rate = completion_stats_df.loc[scen_label, 'completion_rate']
              else:
                  comp_rate = None  # scenario not found
              comparison_rows.append({
                  'scenario_label': scen_label, 'topology': topology, 'scheduler': scheduler,
                  'avg_cost': row['cost_mean'], 'cost_std': row['cost_std'],
                  'cpu_utilization': row['cpu_utilization_mean'],
                  'cost_efficiency': row['cost_efficiency'],
                  'completion_rate': comp_rate
              })
          comparison_df = pd.DataFrame(comparison_rows)
          if not comparison_df.empty:
              fig, axes = plt.subplots(2, 2, figsize=(15, 12))
              metrics = ['avg_cost', 'cpu_utilization', 'cost_efficiency', 'completion_rate']
              for i, (metric, title) in enumerate(zip(metrics, titles)):
                  if metric in comparison_df.columns:
                      sns.barplot(data=comparison_df, x='topology', y=metric, hue='scheduler', ax=ax)
              plt.savefig(plot_path)
          else:
              self.logger.warning("No data available for comparison plots.")
          return comparison_df
      except Exception as e:
          self.logger.error(f"Error in comparative analysis: {str(e)}")
          raise
  \<close>
  The cost table is the one \<open>analyze_cost_metrics\<close> returns: the aggregate of
  \<open>aggregate_runs\<close> over the keys \<open>scenario_label\<close>, \<open>topology\<close> and \<open>scheduler\<close>, with
  its index reset and its columns flattened, and the column \<open>cost_efficiency\<close> added. A
  row of it has three strings and five floats; a frame without one of the columns read
  here, on which \<^verbatim>\<open>row[c]\<close> raises \<open>KeyError\<close>, is not a table of this type. The
  completion statistics are a frame indexed by scenario label, given as the list of its
  index entries.

  \<^verbatim>\<open>.loc\<close> gives a scalar for a label that occurs once in the index and a series for one
  that occurs more often. The bar plots are drawn before the table is returned, and an
  exception raised there is logged and raised again. seaborn draws a column of floats,
  missing or not (\<open>None\<close> is a missing float to it), and raises \<open>ValueError\<close> for a
  \<open>completion_rate\<close> column one of whose cells holds a series; the text of that exception
  is seaborn's and is left empty. The picture is written to the directory \<^verbatim>\<open>results\<close>,
  which the stages that run before this one create; writing it is not modelled.
\<close>

record cost_row =
  scenario_label :: string
  cost_topology :: string
  cost_scheduler :: string
  cost_mean :: pyfloat
  cost_std :: pyfloat
  cpu_utilization_mean :: pyfloat
  cpu_utilization_std :: pyfloat
  cost_efficiency :: pyfloat

datatype 'a loc_result = Scalar 'a | Series "'a list"

record comparison_row =
  cmp_scenario_label :: string
  cmp_topology :: string
  cmp_scheduler :: string
  cmp_avg_cost :: pyfloat
  cmp_cost_std :: pyfloat
  cmp_cpu_utilization :: pyfloat
  cmp_cost_efficiency :: pyfloat
  cmp_completion_rate :: "real loc_result option"

definition loc_completion_rate :: "(cell \<times> task_metrics) list \<Rightarrow> cell \<Rightarrow> real loc_result" where
  "loc_completion_rate completion_stats_df scen_label =
     (case filter (\<lambda>e. fst e = scen_label) completion_stats_df of
        [e] \<Rightarrow> Scalar (completion_rate (snd e))
      | es \<Rightarrow> Series (map (\<lambda>e. completion_rate (snd e)) es))"

definition comparison_row_of :: "(cell \<times> task_metrics) list \<Rightarrow> cost_row \<Rightarrow> comparison_row" where
  "comparison_row_of completion_stats_df r =
     \<lparr> cmp_scenario_label = scenario_label r,
       cmp_topology = cost_topology r,
       cmp_scheduler = cost_scheduler r,
       cmp_avg_cost = cost_mean r,
       cmp_cost_std = cost_std r,
       cmp_cpu_utilization = cpu_utilization_mean r,
       cmp_cost_efficiency = cost_efficiency r,
       cmp_completion_rate =
         (if Str (scenario_label r) \<in> set (map fst completion_stats_df)
          then Some (loc_completion_rate completion_stats_df (Str (scenario_label r)))
          else None) \<rparr>"

definition holds_series :: "comparison_row \<Rightarrow> bool" where
  "holds_series c = (case cmp_completion_rate c of Some (Series rates) \<Rightarrow> True | _ \<Rightarrow> False)"

definition comparative_analysis ::
  "cost_row list \<Rightarrow> (cell \<times> task_metrics) list \<Rightarrow> error + comparison_row list" where
  "comparative_analysis cost_metrics_df completion_stats_df =
     (let comparison_df = map (comparison_row_of completion_stats_df) cost_metrics_df in
      if list_ex holds_series comparison_df then Inl (ValueError [])
      else Inr comparison_df)"

section \<open>more\_analysis.py: analyze\_task\_completion and main\<close>

text \<open>numpy's reductions do not skip missing values, and \<^verbatim>\<open>np.std\<close> divides by the
  number of values.\<close>

definition np_mean :: "pyfloat list \<Rightarrow> pyfloat" where
  "np_mean xs = (if NaN \<in> set xs then NaN else Fin (mean_of (dropna xs)))"

definition np_median :: "pyfloat list \<Rightarrow> pyfloat" where
  "np_median xs = (if NaN \<in> set xs then NaN else Fin (median_of (dropna xs)))"

definition np_std :: "pyfloat list \<Rightarrow> pyfloat" where
  "np_std xs =
     (if NaN \<in> set xs then NaN
      else Fin (sqrt (sum_list (map (\<lambda>x. (x - mean_of (dropna xs))\<^sup>2) (dropna xs))
                      / real (length xs))))"

text \<open>
  \<^verbatim>\<open>
      try:
          task_df = task_df[~task_df['scheduler'].isin(['SimpleCost', 'Unknown'])]
          metrics = []
          for (scheduler, topology), group in task_df.groupby(['scheduler', 'topology']):
              completed = group[group['task_state'] == 'COMPLETED']
              completion_times = (completed['finish_time'] - completed['creation_time']).values / 1000
              metrics.append({
                  'scheduler': scheduler,
                  'topology': topology,
                  'total_tasks': len(group),
                  'completed_tasks': len(completed),
                  'completion_rate': len(completed) / len(group) * 100,
                  'avg_completion_time': np.mean(completion_times) if len(completion_times) > 0 else np.nan,
                  'median_completion_time': np.median(completion_times) if len(completion_times) > 0 else np.nan,
                  'std_completion_time': np.std(completion_times) if len(completion_times) > 0 else np.nan
              })
          return pd.DataFrame(metrics)
      except Exception as e:
          return pd.DataFrame()
  \<close>
\<close>

definition empty_frame :: dataframe where
  "empty_frame = \<lparr> columns = [], rows = [] \<rparr>"

definition exclude_baseline :: "dataframe \<Rightarrow> error + dataframe" where
  "exclude_baseline df =
     (if ''scheduler'' \<notin> set (columns df) then Inl (KeyError ''scheduler'')
      else Inr (df \<lparr> rows := filter (\<lambda>r. cell_of r ''scheduler'' \<notin> set [Str ''SimpleCost'', Str ''Unknown''])
                               (rows df) \<rparr>))"

definition group_completion_metrics :: "dataframe \<Rightarrow> cell list \<times> row list \<Rightarrow> error + row" where
  "group_completion_metrics task_df g =
     (case filter (\<lambda>c. c \<notin> set (columns task_df)) [''task_state'', ''finish_time'', ''creation_time''] of
        c # cs \<Rightarrow> Inl (KeyError c)
      | [] \<Rightarrow>
          let completed = filter (\<lambda>r. cell_of r ''task_state'' = Str ''COMPLETED'') (snd g) in
          case those (map (\<lambda>r. cell_sub (cell_of r ''finish_time'') (cell_of r ''creation_time''))
                        completed) of
            None \<Rightarrow> Inl TypeError
          | Some deltas \<Rightarrow>
               let completion_times = map (\<lambda>d. fdiv d 1000) deltas in
               Inr [(''scheduler'', fst g ! 0),
                    (''topology'', fst g ! 1),
                    (''total_tasks'', Num (Fin (real (length (snd g))))),
                    (''completed_tasks'', Num (Fin (real (length completed)))),
                    (''completion_rate'',
                       Num (Fin (real (length completed) / real (length (snd g)) * 100))),
                    (''avg_completion_time'',
                       Num (if completion_times \<noteq> [] then np_mean completion_times else NaN)),
                    (''median_completion_time'',
                       Num (if completion_times \<noteq> [] then np_median completion_times else NaN)),
                    (''std_completion_time'',
                       Num (if completion_times \<noteq> [] then np_std completion_times else NaN))])"

definition analyze_task_completion_more :: "dataframe \<Rightarrow> dataframe" where
  "analyze_task_completion_more task_df =
     (case exclude_baseline task_df of
        Inl e \<Rightarrow> empty_frame
      | Inr kept \<Rightarrow>
          (case groupby kept [''scheduler'', ''topology''] of
             Inl e \<Rightarrow> empty_frame
           | Inr groups \<Rightarrow>
               (case try_map (group_completion_metrics kept) groups of
                  Inl e \<Rightarrow> empty_frame
                | Inr [] \<Rightarrow> empty_frame
                | Inr metrics \<Rightarrow>
                    \<lparr> columns = [''scheduler'', ''topology'', ''total_tasks'', ''completed_tasks'',
                                 ''completion_rate'', ''avg_completion_time'',
                                 ''median_completion_time'', ''std_completion_time''],
                      rows = metrics \<rparr>)))"

text \<open>
  \<^verbatim>\<open>
      patterns = ['diurnal', 'spike', 'stable', 'volatile']
      all_efficiency_metrics = []
      all_completion_metrics = []
      for pattern in patterns:
          logger.info(f"Analyzing {pattern} pattern")
          try:
              host_data, task_data = load_data(base_path, pattern)
              host_data = host_data[~host_data['scheduler'].isin(['SimpleCost', 'Unknown'])]
              task_data = task_data[~task_data['scheduler'].isin(['SimpleCost', 'Unknown'])]
              if len(host_data) == 0 or len(task_data) == 0:
                  logger.warning(f"No valid data found for pattern {pattern} after filtering")
                  continue
              efficiency_metrics = calculate_efficiency_metrics(host_data)
              efficiency_metrics['pattern'] = pattern
              all_efficiency_metrics.append(efficiency_metrics)
              completion_metrics = analyze_task_completion(task_data)
              completion_metrics['pattern'] = pattern
              all_completion_metrics.append(completion_metrics)
              create_visualizations(...)
              save_results(...)
          except Exception as e:
              logger.error(f"Error analyzing {pattern} pattern: {str(e)}")
              continue
      try: ... cross-pattern plots and summaries ...
      except Exception as e: logger.error(...)
      logger.info("Analysis completed")
  \<close>
  \<open>calculate_efficiency_metrics\<close>, like \<open>analyze_task_completion\<close>, catches every
  exception and returns a frame; the driver is modelled for any such function
  \<open>calc\<close>. Plots and files are not modelled: \<open>create_visualizations\<close>, \<open>save_results\<close>
  and the cross-pattern part catch their exceptions. What one pattern contributes is
  computed first (\<open>analyze_pattern\<close>) and then applied to the state of the driver:
  nothing after the first \<^verbatim>\<open>append\<close> of the \<^verbatim>\<open>try\<close> block can raise. Of the log the
  model keeps the entries written here, without the text of the exception, which is
  kept as a value. A Python process ends with status 1 on an uncaught exception and
  with status 0 when the script returns.
\<close>

datatype log_entry = Info string | Warning string | Error string error

record driver_state =
  logged :: "log_entry list"
  all_efficiency_metrics :: "dataframe list"
  all_completion_metrics :: "dataframe list"

datatype outcome = Failed error | NoValidData | Analysed dataframe dataframe

definition analyze_pattern ::
  "(dataframe \<Rightarrow> dataframe) \<Rightarrow> filesystem \<Rightarrow> string \<Rightarrow> string \<Rightarrow> outcome" where
  "analyze_pattern calc fs base_path pattern =
     (case load_data fs base_path pattern of
        Inl e \<Rightarrow> Failed e
      | Inr (host_data, task_data) \<Rightarrow>
          (case exclude_baseline host_data of
             Inl e \<Rightarrow> Failed e
           | Inr host_kept \<Rightarrow>
               (case exclude_baseline task_data of
                  Inl e \<Rightarrow> Failed e
                | Inr task_kept \<Rightarrow>
                    if rows host_kept = [] \<or> rows task_kept = [] then NoValidData
                    else Analysed (set_column ''pattern'' (Str pattern) (calc host_kept))
                           (set_column ''pattern'' (Str pattern)
                              (analyze_task_completion_more task_kept)))))"

fun record_outcome :: "string \<Rightarrow> outcome \<Rightarrow> driver_state \<Rightarrow> driver_state" where
  "record_outcome pattern (Failed e) st =
     st \<lparr> logged := logged st @ [Error (''Error analyzing '' @ pattern @ '' pattern'') e] \<rparr>"
| "record_outcome pattern NoValidData st =
     st \<lparr> logged := logged st @ [Warning (''No valid data found for pattern '' @ pattern
                                      @ '' after filtering'')] \<rparr>"
| "record_outcome pattern (Analysed efficiency_metrics completion_metrics) st =
     st \<lparr> logged := logged st @ [Info (''Calculated metrics for '' @ pattern @ '' pattern'')],
          all_efficiency_metrics := all_efficiency_metrics st @ [efficiency_metrics],
          all_completion_metrics := all_completion_metrics st @ [completion_metrics] \<rparr>"

fun analysis_loop ::
  "(dataframe \<Rightarrow> dataframe) \<Rightarrow> filesystem \<Rightarrow> string \<Rightarrow> string list \<Rightarrow> driver_state
   \<Rightarrow> driver_state" where
  "analysis_loop calc fs base_path [] st = st"
| "analysis_loop calc fs base_path (pattern # patterns) st =
     analysis_loop calc fs base_path patterns
       (record_outcome pattern (analyze_pattern calc fs base_path pattern)
          (st \<lparr> logged := logged st @ [Info (''Analyzing '' @ pattern @ '' pattern'')] \<rparr>))"

definition exit_status :: "error + 'a \<Rightarrow> nat" where
  "exit_status r = (case r of Inl e \<Rightarrow> 1 | Inr v \<Rightarrow> 0)"

definition more_analysis_main ::
  "(dataframe \<Rightarrow> dataframe) \<Rightarrow> filesystem \<Rightarrow> (error + unit) \<times> driver_state" where
  "more_analysis_main calc fs =
     (let st = analysis_loop calc fs ''output'' [''diurnal'', ''spike'', ''stable'', ''volatile'']
                 \<lparr> logged = [Info ''Starting cost analysis - Comparing CostEfficient vs PredictiveCost''],
                   all_efficiency_metrics = [], all_completion_metrics = [] \<rparr>
      in (Inr (), st \<lparr> logged := logged st @ [Info ''Analysis completed''] \<rparr>))"

section \<open>analyze\_experiments.py: main\<close>

text \<open>
  \<^verbatim>\<open>
      try:
          ...
          logger.info("Starting experiment analysis (main)...")
          for pattern in ['stable', 'volatile', 'diurnal', 'spike']:
              logger.info(f"\nAnalyzing '{pattern}' cost pattern...")
              analyzer = ExperimentAnalyzer(base_path, pattern)
              resource_stats = analyzer.analyze_resource_utilization()
              cost_stats = analyzer.analyze_cost_metrics()
              task_stats = analyzer.analyze_task_completion()
              comparison = analyzer.comparative_analysis(cost_metrics_df=cost_stats, completion_stats_df=task_stats)
              logger.info(f"Saving results for '{pattern}' pattern...")
              ... to_csv ...
          logger.info("Analysis completed successfully.")
      except Exception as e:
          logger.error(f"Error in main analysis: {str(e)}")
          raise
  \<close>
  \<open>stages\<close> stands for the body of the loop up to the results of one pattern: the
  constructor of \<open>ExperimentAnalyzer\<close>, which loads the tables, and the four analyses;
  each of them may raise. The loop returns the exception that ended it, if any.
\<close>

record 'r experiment_state =
  exp_log :: "log_entry list"
  saved :: "(string \<times> 'r) list"

fun experiment_loop ::
  "(string \<Rightarrow> error + 'r) \<Rightarrow> string list \<Rightarrow> 'r experiment_state
   \<Rightarrow> error option \<times> 'r experiment_state" where
  "experiment_loop stages [] st = (None, st)"
| "experiment_loop stages (pattern # patterns) st =
     (case stages pattern of
        Inl e \<Rightarrow>
          (Some e, st \<lparr> exp_log := exp_log st @ [Info (''Analyzing '' @ pattern @ '' cost pattern...'')] \<rparr>)
      | Inr results \<Rightarrow>
          experiment_loop stages patterns
            (st \<lparr> exp_log := exp_log st @ [Info (''Analyzing '' @ pattern @ '' cost pattern...''),
                                           Info (''Saving results for '' @ pattern @ '' pattern...'')],
                  saved := saved st @ [(pattern, results)] \<rparr>))"

definition analyze_experiments_main ::
  "(string \<Rightarrow> error + 'r) \<Rightarrow> (error + unit) \<times> 'r experiment_state" where
  "analyze_experiments_main stages =
     (case experiment_loop stages [''stable'', ''volatile'', ''diurnal'', ''spike'']
             \<lparr> exp_log = [Info ''Starting experiment analysis (main)...''], saved = [] \<rparr> of
        (None, st) \<Rightarrow>
          (Inr (), st \<lparr> exp_log := exp_log st @ [Info ''Analysis completed successfully.''] \<rparr>)
      | (Some e, st) \<Rightarrow>
          (Inl e, st \<lparr> exp_log := exp_log st @ [Error ''Error in main analysis'' e] \<rparr>))"

section \<open>The completion statistics in the words of the specification\<close>





section \<open>Reading the state of a driver\<close>

text \<open>The log entries that announce a pattern, and the frames of the patterns that
  \<open>analyze_pattern\<close> analysed, in the order of the pattern list.\<close>

definition is_analyzing :: "log_entry \<Rightarrow> bool" where
  "is_analyzing l = (case l of Info msg \<Rightarrow> prefix ''Analyzing '' msg | _ \<Rightarrow> False)"

fun analysed_frames ::
  "(dataframe \<Rightarrow> dataframe) \<Rightarrow> filesystem \<Rightarrow> string \<Rightarrow> string list \<Rightarrow> (dataframe \<times> dataframe) list" where
  "analysed_frames calc fs base_path [] = []"
| "analysed_frames calc fs base_path (pattern # patterns) =
     (case analyze_pattern calc fs base_path pattern of
        Analysed efficiency_metrics completion_metrics \<Rightarrow>
          (efficiency_metrics, completion_metrics) # analysed_frames calc fs base_path patterns
      | _ \<Rightarrow> analysed_frames calc fs base_path patterns)"

section \<open>Tables present under a raw-output directory\<close>

text \<open>A seed directory has a table of a kind when its name starts with \<^verbatim>\<open>seed=\<close> and it
  holds the file \<^verbatim>\<open><kind>.parquet\<close>; a listing has no table of the kind when no
  directory with an all-digit name has such a seed directory.\<close>

definition seed_has_table :: "string \<Rightarrow> string \<times> node \<Rightarrow> bool" where
  "seed_has_table file_type e =
     (prefix ''seed='' (fst e) \<and> dir_entry (snd e) (file_type @ ''.parquet'') \<noteq> None)"

definition scenario_has_table :: "string \<Rightarrow> string \<times> node \<Rightarrow> bool" where
  "scenario_has_table file_type e =
     (isdigit (fst e) \<and>
      (case snd e of Dir entries \<Rightarrow> list_ex (seed_has_table file_type) entries | _ \<Rightarrow> False))"

definition no_tables :: "string \<Rightarrow> (string \<times> node) list \<Rightarrow> bool" where
  "no_tables file_type listing = (\<not> list_ex (scenario_has_table file_type) listing)"

section \<open>Example inputs\<close>

text \<open>The host samples of two scenarios with one seed each, as \<^verbatim>\<open>read_parquet_files\<close>
  tags them: costs 100 and 200 and utilisations 50 and 70 for scenario 0, cost 300 and
  utilisation 90 for scenario 1.\<close>

definition round_trip_hosts :: dataframe where
  "round_trip_hosts =
     \<lparr> columns = [''cost'', ''cpu_utilization'', ''topology'', ''scheduler'', ''scenario'', ''seed''],
       rows =
         [[(''cost'', Num (Fin 100)), (''cpu_utilization'', Num (Fin 50)),
           (''topology'', Str ''small''), (''scheduler'', Str ''CostEfficient''),
           (''scenario'', Num (Fin 0)), (''seed'', Num (Fin 0))],
          [(''cost'', Num (Fin 200)), (''cpu_utilization'', Num (Fin 70)),
           (''topology'', Str ''small''), (''scheduler'', Str ''CostEfficient''),
           (''scenario'', Num (Fin 0)), (''seed'', Num (Fin 0))],
          [(''cost'', Num (Fin 300)), (''cpu_utilization'', Num (Fin 90)),
           (''topology'', Str ''large''), (''scheduler'', Str ''PredictiveCost''),
           (''scenario'', Num (Fin 1)), (''seed'', Num (Fin 0))]] \<rparr>"

text \<open>Experiment directories: one with the scenario directory \<open>0\<close> of a registry of one
  scenario, the same with a scenario directory \<open>1\<close> the registry has no entry for, one
  whose only scenario directory has no seed directory, and one whose registry entry has
  an \<^verbatim>\<open>allocationPolicy\<close> without \<^verbatim>\<open>policyType\<close>.\<close>

definition host_table :: dataframe where
  "host_table = \<lparr> columns = [''cost'', ''cpu_utilization''],
      rows = [[(''cost'', Num (Fin 100)), (''cpu_utilization'', Num (Fin 50))],
              [(''cost'', Num (Fin 200)), (''cpu_utilization'', Num (Fin 70))]] \<rparr>"

definition small_costefficient :: scenario_info where
  "small_costefficient = \<lparr> topology = Some (Some ''topologies/topology_small.json''),
                            allocationPolicy = Some (Some ''CostEfficient'') \<rparr>"

definition fs_in_range :: filesystem where
  "fs_in_range base_path cost_pattern =
     \<lparr> trackr_json = Registry [small_costefficient],
       raw_output = Some [(''0'', Dir [(''seed=0'', Dir [(''host.parquet'', Parquet host_table)])])] \<rparr>"

definition fs_out_of_range :: filesystem where
  "fs_out_of_range base_path cost_pattern =
     \<lparr> trackr_json = Registry [small_costefficient],
       raw_output = Some [(''0'', Dir [(''seed=0'', Dir [(''host.parquet'', Parquet host_table)])]),
                          (''1'', Dir [(''seed=0'', Dir [(''host.parquet'', Parquet host_table)])])] \<rparr>"

definition fs_no_seeds :: filesystem where
  "fs_no_seeds base_path cost_pattern =
     \<lparr> trackr_json = Registry [small_costefficient],
       raw_output = Some [(''0'', Dir [(''logs'', Dir [])]), (''notes.txt'', Unreadable)] \<rparr>"

definition fs_missing_policy :: filesystem where
  "fs_missing_policy base_path cost_pattern =
     \<lparr> trackr_json = Registry [\<lparr> topology = Some (Some ''topologies/topology_small.json''),
                                 allocationPolicy = Some None \<rparr>],
       raw_output = Some [(''0'', Dir [(''seed=0'', Dir [(''host.parquet'', Parquet host_table)])])] \<rparr>"

text \<open>Task events of three tasks in two scenarios, the cost statistics of two scenarios as
  \<open>analyze_cost_metrics\<close> flattens them, and the completion statistics of the task
  events.\<close>

definition example_tasks :: dataframe where
  "example_tasks =
     \<lparr> columns = [''task_id'', ''task_state'', ''creation_time'', ''finish_time'',
                  ''topology'', ''scheduler'', ''scenario_label''],
       rows =
         [[(''task_id'', Str ''a''), (''task_state'', Str ''RUNNING''),
           (''creation_time'', Num (Fin 1000)), (''finish_time'', Num NaN),
           (''topology'', Str ''small''), (''scheduler'', Str ''CostEfficient''),
           (''scenario_label'', Str ''small_cost_diurnal_CostEfficient'')],
          [(''task_id'', Str ''b''), (''task_state'', Str ''RUNNING''),
           (''creation_time'', Num (Fin 1000)), (''finish_time'', Num NaN),
           (''topology'', Str ''small''), (''scheduler'', Str ''CostEfficient''),
           (''scenario_label'', Str ''small_cost_diurnal_CostEfficient'')],
          [(''task_id'', Str ''c''), (''task_state'', Str ''RUNNING''),
           (''creation_time'', Num (Fin 1000)), (''finish_time'', Num NaN),
           (''topology'', Str ''large''), (''scheduler'', Str ''PredictiveCost''),
           (''scenario_label'', Str ''large_cost_diurnal_PredictiveCost'')],
          [(''task_id'', Str ''a''), (''task_state'', Str ''COMPLETED''),
           (''creation_time'', Num (Fin 1000)), (''finish_time'', Num (Fin 3000)),
           (''topology'', Str ''small''), (''scheduler'', Str ''CostEfficient''),
           (''scenario_label'', Str ''small_cost_diurnal_CostEfficient'')],
          [(''task_id'', Str ''b''), (''task_state'', Str ''TERMINATED''),
           (''creation_time'', Num (Fin 1000)), (''finish_time'', Num (Fin 2000)),
           (''topology'', Str ''small''), (''scheduler'', Str ''CostEfficient''),
           (''scenario_label'', Str ''small_cost_diurnal_CostEfficient'')],
          [(''task_id'', Str ''c''), (''task_state'', Str ''ERROR''),
           (''creation_time'', Num (Fin 1000)), (''finish_time'', Num (Fin 2000)),
           (''topology'', Str ''large''), (''scheduler'', Str ''PredictiveCost''),
           (''scenario_label'', Str ''large_cost_diurnal_PredictiveCost'')]] \<rparr>"

definition example_costs :: "cost_row list" where
  "example_costs =
     [\<lparr> scenario_label = ''small_cost_diurnal_CostEfficient'',
        cost_topology = ''small'', cost_scheduler = ''CostEfficient'',
        cost_mean = Fin 150, cost_std = Fin 70.7107,
        cpu_utilization_mean = Fin 60, cpu_utilization_std = Fin 14.1421,
        cost_efficiency = Fin 0.4 \<rparr>,
      \<lparr> scenario_label = ''medium_cost_diurnal_CostEfficient'',
        cost_topology = ''medium'', cost_scheduler = ''CostEfficient'',
        cost_mean = Fin 300, cost_std = NaN,
        cpu_utilization_mean = Fin 90, cpu_utilization_std = NaN,
        cost_efficiency = Fin 0.3 \<rparr>]"

definition example_stats :: "(cell \<times> task_metrics) list" where
  "example_stats =
     [(Str ''small_cost_diurnal_CostEfficient'',
       \<lparr> total_tasks = 2, completion_rate = 1 / 2, termination_rate = 1 / 2, error_rate = 0,
         avg_completion_time = Some (Fin 2), median_completion_time = Some (Fin 2),
         std_completion_time = Some NaN, min_completion_time = Some (Fin 2),
         max_completion_time = Some (Fin 2) \<rparr>),
      (Str ''large_cost_diurnal_PredictiveCost'',
       \<lparr> total_tasks = 1, completion_rate = 0, termination_rate = 0, error_rate = 1,
         avg_completion_time = None, median_completion_time = None,
         std_completion_time = None, min_completion_time = None,
         max_completion_time = None \<rparr>)]"



text \<open>A file system that has an experiment for the pattern \<open>diurnal\<close> only, and the first
  stage of \<open>ExperimentAnalyzer\<close> on it: loading the host tables.\<close>

definition task_table :: dataframe where
  "task_table = \<lparr> columns = [''task_id'', ''task_state'', ''creation_time'', ''finish_time''],
      rows = [[(''task_id'', Str ''a''), (''task_state'', Str ''RUNNING''),
               (''creation_time'', Num (Fin 1000)), (''finish_time'', Num NaN)],
              [(''task_id'', Str ''a''), (''task_state'', Str ''COMPLETED''),
               (''creation_time'', Num (Fin 1000)), (''finish_time'', Num (Fin 3000))]] \<rparr>"

definition fs_only_diurnal :: filesystem where
  "fs_only_diurnal base_path cost_pattern =
     (if cost_pattern = ''diurnal''
      then \<lparr> trackr_json = Registry [small_costefficient],
             raw_output = Some [(''0'', Dir [(''seed=0'', Dir [(''host.parquet'', Parquet host_table),
                                                            (''task.parquet'', Parquet task_table)])])] \<rparr>
      else \<lparr> trackr_json = Absent, raw_output = None \<rparr>)"

definition first_stage :: "string \<Rightarrow> error + dataframe" where
  "first_stage pattern = read_parquet_files fs_only_diurnal ''output'' pattern ''host''"

section \<open>Properties of aggregate\_runs\<close>

lemmas frame_eval =
  unique_def set_column_def concat_frames_def cell_of_def isna_def row_key_def groupby_key_def
  sort_by_def List.map_filter_def Let_def

lemmas aggregate_eval =
  aggregate_runs_def augment_group_cols_def agg_mean_std_def agg_group_def groupby_def
  is_str_def metric_values_def frame_eval

text \<open>The standard deviations of the example, rounded to four decimals.\<close>

lemma sqrt_5000_bounds: "70.71065 < sqrt 5000 \<and> sqrt 5000 < 70.7107"
proof
  have "(70.71065 :: real)\<^sup>2 < 5000" by (simp add: power2_eq_square)
  then show "70.71065 < sqrt 5000" by (rule real_less_rsqrt)
  have "(5000 :: real) < 70.7107\<^sup>2" by (simp add: power2_eq_square)
  then show "sqrt 5000 < 70.7107" by (intro real_less_lsqrt) simp_all
qed

lemma round4_sqrt_5000: "round4 (Fin (sqrt 5000)) = Fin 70.7107"
proof -
  let ?x = "sqrt 5000 * 10000"
  have lo: "707106.5 < ?x" and hi: "?x < 707107"
    using sqrt_5000_bounds by simp_all
  have fl: "\<lfloor>?x\<rfloor> = 707106"
    using lo hi by (simp add: floor_eq_iff)
  have "round_half_even ?x = 707107"
    using lo by (simp add: round_half_even_def fl Let_def)
  then show ?thesis by simp
qed

lemma sqrt_200_bounds: "14.1421 < sqrt 200 \<and> sqrt 200 < 14.14215"
proof
  have "(14.1421 :: real)\<^sup>2 < 200" by (simp add: power2_eq_square)
  then show "14.1421 < sqrt 200" by (rule real_less_rsqrt)
  have "(200 :: real) < 14.14215\<^sup>2" by (simp add: power2_eq_square)
  then show "sqrt 200 < 14.14215" by (intro real_less_lsqrt) simp_all
qed

lemma round4_sqrt_200: "round4 (Fin (sqrt 200)) = Fin 14.1421"
proof -
  let ?x = "sqrt 200 * 10000"
  have lo: "141421 < ?x" and hi: "?x < 141421.5"
    using sqrt_200_bounds by simp_all
  have fl: "\<lfloor>?x\<rfloor> = 141421"
    using lo hi by (simp add: floor_eq_iff)
  have "round_half_even ?x = 141421"
    using hi by (simp add: round_half_even_def fl Let_def)
  then show ?thesis by simp
qed

lemma round_trip_stats:
  "round4 (series_mean [Fin 100, Fin 200]) = Fin 150"
  "round4 (series_std [Fin 100, Fin 200]) = Fin 70.7107"
  "round4 (series_mean [Fin 50, Fin 70]) = Fin 60"
  "round4 (series_std [Fin 50, Fin 70]) = Fin 14.1421"
  "round4 (series_mean [Fin 300]) = Fin 300"
  "round4 (series_std [Fin 300]) = NaN"
  "round4 (series_mean [Fin 90]) = Fin 90"
  "round4 (series_std [Fin 90]) = NaN"
  using round4_sqrt_5000 round4_sqrt_200
  by (simp_all add: series_mean_def series_std_def mean_of_def round_half_even_def)

lemma round_trip_aggregate:
  "fst (aggregate_runs round_trip_hosts [''scenario''] [''cost'', ''cpu_utilization'']) =
     Inr \<lparr> index_names = [''scenario'', ''topology'', ''scheduler''],
           agg_rows = [\<lparr> group_key = [Num (Fin 0), Str ''small'', Str ''CostEfficient''],
                         stats = [(''cost'', Fin 150, Fin 70.7107),
                                  (''cpu_utilization'', Fin 60, Fin 14.1421)] \<rparr>,
                       \<lparr> group_key = [Num (Fin 1), Str ''large'', Str ''PredictiveCost''],
                         stats = [(''cost'', Fin 300, NaN),
                                  (''cpu_utilization'', Fin 90, NaN)] \<rparr>] \<rparr>"
  by (simp add: round_trip_hosts_def aggregate_eval round_trip_stats)

lemma round_trip_groups:
  "map (length \<circ> snd)
     (projr (groupby round_trip_hosts
        (snd (aggregate_runs round_trip_hosts [''scenario''] [''cost'', ''cpu_utilization''])))) = [2, 1]"
  by (simp add: round_trip_hosts_def aggregate_eval)

lemma augment_group_cols_eq:
  "augment_group_cols df group_cols =
     group_cols @ filter (\<lambda>c. c \<in> set (columns df) \<and> c \<notin> set group_cols)
                    [''topology'', ''scheduler'']"
  by (simp add: augment_group_cols_def)

text \<open>
  C2. For a table that has the columns \<open>topology\<close> and \<open>scheduler\<close> and group keys that
  name neither, \<open>aggregate_runs\<close> returns the aggregate table it returns for the keys
  with \<open>topology\<close> and \<open>scheduler\<close> appended: the two keys are added by the function
  itself.
\<close>

theorem aggregate_runs_auto_keys:
  assumes "''topology'' \<in> set (columns df)" and "''scheduler'' \<in> set (columns df)"
    and "''topology'' \<notin> set keys" and "''scheduler'' \<notin> set keys"
  shows "fst (aggregate_runs df keys metrics) =
         fst (aggregate_runs df (keys @ [''topology'', ''scheduler'']) metrics)"
proof -
  have "augment_group_cols df keys = keys @ [''topology'', ''scheduler'']"
    using assms by (simp add: augment_group_cols_eq)
  moreover have "augment_group_cols df (keys @ [''topology'', ''scheduler'']) =
      keys @ [''topology'', ''scheduler'']"
    by (simp add: augment_group_cols_eq)
  ultimately show ?thesis
    by (simp add: aggregate_runs_def)
qed

theorem aggregate_runs_auto_keys_witness:
  "''topology'' \<in> set (columns round_trip_hosts) \<and>
   ''scheduler'' \<in> set (columns round_trip_hosts) \<and>
   ''topology'' \<notin> set [''scenario''] \<and> ''scheduler'' \<notin> set [''scenario''] \<and>
   fst (aggregate_runs round_trip_hosts [''scenario''] [''cost'', ''cpu_utilization'']) =
   fst (aggregate_runs round_trip_hosts [''scenario'', ''topology'', ''scheduler'']
          [''cost'', ''cpu_utilization'']) \<and>
   fst (aggregate_runs round_trip_hosts [''scenario'', ''topology'', ''scheduler'']
          [''cost'', ''cpu_utilization'']) =
     Inr \<lparr> index_names = [''scenario'', ''topology'', ''scheduler''],
           agg_rows = [\<lparr> group_key = [Num (Fin 0), Str ''small'', Str ''CostEfficient''],
                         stats = [(''cost'', Fin 150, Fin 70.7107),
                                  (''cpu_utilization'', Fin 60, Fin 14.1421)] \<rparr>,
                       \<lparr> group_key = [Num (Fin 1), Str ''large'', Str ''PredictiveCost''],
                         stats = [(''cost'', Fin 300, NaN),
                                  (''cpu_utilization'', Fin 90, NaN)] \<rparr>] \<rparr>"
proof -
  have cols: "''topology'' \<in> set (columns round_trip_hosts)"
    "''scheduler'' \<in> set (columns round_trip_hosts)"
    by (simp_all add: round_trip_hosts_def)
  have keys: "''topology'' \<notin> set [''scenario'']" "''scheduler'' \<notin> set [''scenario'']"
    by simp_all
  from aggregate_runs_auto_keys [OF cols keys, of "[''cost'', ''cpu_utilization'']"]
    round_trip_aggregate cols
  show ?thesis by simp
qed

lemma agg_rows_of_result:
  assumes "fst (aggregate_runs df group_cols metric_cols) = Inr tbl"
    and "groupby df (snd (aggregate_runs df group_cols metric_cols)) = Inr groups"
  shows "agg_rows tbl = map (agg_group (unique metric_cols)) groups"
  using assms
  by (auto simp: aggregate_runs_def agg_mean_std_def Let_def split: list.splits if_splits)

lemma series_std_single: "length xs = 1 \<Longrightarrow> series_std xs = NaN"
proof -
  assume "length xs = 1"
  then obtain x where "xs = [x]" by (cases xs) auto
  then show ?thesis by (cases x) (simp_all add: series_std_def)
qed

text \<open>
  C4. When \<open>aggregate_runs\<close> returns a table, its rows are the groups of the table under
  the group keys the call ended with, in order, and the row of a group of exactly one
  row has the std \<open>NaN\<close> for every metric, never 0.
\<close>

theorem single_row_group_std_undefined:
  assumes "fst (aggregate_runs df group_cols metric_cols) = Inr tbl"
    and "groupby df (snd (aggregate_runs df group_cols metric_cols)) = Inr groups"
    and "i < length groups" and "length (snd (groups ! i)) = 1"
  shows "length (agg_rows tbl) = length groups \<and>
         group_key (agg_rows tbl ! i) = fst (groups ! i) \<and>
         map fst (stats (agg_rows tbl ! i)) = unique metric_cols \<and>
         (\<forall>(m, mu, sd) \<in> set (stats (agg_rows tbl ! i)). sd = NaN \<and> sd \<noteq> Fin 0)"
proof -
  have rows: "agg_rows tbl = map (agg_group (unique metric_cols)) groups"
    using assms(1,2) by (rule agg_rows_of_result)
  have "series_std (metric_values (snd (groups ! i)) m) = NaN" for m
    using assms(4) by (simp add: series_std_single metric_values_def)
  then show ?thesis
    using assms(3) by (auto simp: rows agg_group_def comp_def)
qed

theorem single_row_group_std_undefined_witness:
  "fst (aggregate_runs round_trip_hosts [''scenario''] [''cost'', ''cpu_utilization'']) =
     Inr \<lparr> index_names = [''scenario'', ''topology'', ''scheduler''],
           agg_rows = [\<lparr> group_key = [Num (Fin 0), Str ''small'', Str ''CostEfficient''],
                         stats = [(''cost'', Fin 150, Fin 70.7107),
                                  (''cpu_utilization'', Fin 60, Fin 14.1421)] \<rparr>,
                       \<lparr> group_key = [Num (Fin 1), Str ''large'', Str ''PredictiveCost''],
                         stats = [(''cost'', Fin 300, NaN),
                                  (''cpu_utilization'', Fin 90, NaN)] \<rparr>] \<rparr> \<and>
   map (length \<circ> snd)
     (projr (groupby round_trip_hosts
        (snd (aggregate_runs round_trip_hosts [''scenario''] [''cost'', ''cpu_utilization''])))) =
     [2, 1] \<and>
   map (\<lambda>s. snd (snd s))
     (stats (agg_rows (projr (fst (aggregate_runs round_trip_hosts [''scenario'']
                                     [''cost'', ''cpu_utilization'']))) ! 1)) = [NaN, NaN]"
proof -
  obtain groups where groups: "groupby round_trip_hosts
      (snd (aggregate_runs round_trip_hosts [''scenario''] [''cost'', ''cpu_utilization''])) =
      Inr groups"
    and sizes: "map (length \<circ> snd) groups = [2, 1]"
    by (simp add: round_trip_hosts_def aggregate_eval)
  from sizes have i: "1 < length groups" and one: "length (snd (groups ! 1)) = 1"
    by (auto simp: map_eq_Cons_conv)
  from single_row_group_std_undefined [OF round_trip_aggregate groups i one]
    round_trip_aggregate round_trip_groups
  show ?thesis by simp
qed

text \<open>
  C10. \<open>aggregate_runs\<close> appends to the list its caller passed as \<open>group_cols\<close>: after
  the call the list is the one passed followed by those of \<open>topology\<close> and \<open>scheduler\<close>
  that are columns of the table and were not in it, so it is longer than before
  whenever one of the two is such a column.
\<close>

theorem aggregate_runs_appends_to_group_cols:
  "snd (aggregate_runs df group_cols metric_cols) =
     group_cols @ filter (\<lambda>c. c \<in> set (columns df) \<and> c \<notin> set group_cols)
                    [''topology'', ''scheduler''] \<and>
   ((''topology'' \<in> set (columns df) \<and> ''topology'' \<notin> set group_cols) \<or>
    (''scheduler'' \<in> set (columns df) \<and> ''scheduler'' \<notin> set group_cols)
    \<longrightarrow> length group_cols < length (snd (aggregate_runs df group_cols metric_cols)))"
  by (simp add: aggregate_runs_def augment_group_cols_eq Let_def)

theorem aggregate_runs_appends_to_group_cols_witness:
  "''topology'' \<in> set (columns round_trip_hosts) \<and>
   ''topology'' \<notin> set [''scenario_label'', ''datetime''] \<and>
   snd (aggregate_runs round_trip_hosts [''scenario_label'', ''datetime''] [''cost'']) =
     [''scenario_label'', ''datetime'', ''topology'', ''scheduler''] \<and>
   fst (aggregate_runs round_trip_hosts [''scenario_label'', ''datetime''] [''cost'']) =
     Inl (KeyError ''scenario_label'') \<and>
   length [''scenario_label'', ''datetime''] <
     length (snd (aggregate_runs round_trip_hosts [''scenario_label'', ''datetime''] [''cost'']))"
  using aggregate_runs_appends_to_group_cols
    [of round_trip_hosts "[''scenario_label'', ''datetime'']" "[''cost'']"]
  by (simp add: round_trip_hosts_def aggregate_eval)

section \<open>Properties of the loaders\<close>

lemmas string_eval = isdigit_def is_digit_def nat_of_digits_def is_space_def strip_def
  unsigned_int_def py_int_def lower_def lower_char_def join2_def basename_def pattern_path_def
  seed_of_def sublist_Cons_right

lemmas loader_eval = read_trackr_def read_parquet_files_def tag_table_def string_eval frame_eval

lemmas more_loader_eval = load_data_def load_table_def get_scheduler_info_def
  parse_topology_size_def py_index_def policy_of_def size_in_def topology_path_of_def
  scheduler_from_path_def loader_eval

lemma read_scenarios_append:
  "read_scenarios trackr_data file_type (xs @ ys) dfs =
     (case read_scenarios trackr_data file_type xs dfs of
        (dfs', None) \<Rightarrow> read_scenarios trackr_data file_type ys dfs'
      | (dfs', Some e) \<Rightarrow> (dfs', Some e))"
proof (induction xs arbitrary: dfs)
  case Nil
  show ?case by simp
next
  case (Cons x xs)
  obtain scenario_num nd where x: "x = (scenario_num, nd)" by (cases x)
  show ?case
    unfolding x
    by (simp add: Cons.IH Let_def split: option.splits node.splits prod.splits)
qed

text \<open>
  C5, as amended. When the listing of the raw-output directory contains a directory with
  an all-digit name whose index is not below the length of the registry,
  \<open>read_parquet_files\<close> fails, and the failure is not confined to that scenario: the
  exception leaves the function, so that the whole call fails and returns no table,
  whatever was read before. When the entries listed before that directory were read
  without an exception, whether or not they gave tables, the exception is \<open>IndexError\<close>.
\<close>

theorem read_parquet_files_index_out_of_range:
  assumes "raw_output (fs base_path cost_pattern) = Some (before @ (scenario_num, nd) # after)"
    and "isdigit scenario_num" and "length trackr_data \<le> nat_of_digits scenario_num"
    and "read_trackr fs base_path cost_pattern = Inr trackr_data"
  shows "isl (read_parquet_files fs base_path cost_pattern file_type) \<and>
         (read_scenarios trackr_data file_type before [] = (dfs, None) \<longrightarrow>
            read_parquet_files fs base_path cost_pattern file_type = Inl IndexError)"
proof -
  obtain dfs' err where before:
    "read_scenarios trackr_data file_type before [] = (dfs', err)"
    by (cases "read_scenarios trackr_data file_type before []")
  have "\<exists>e. read_scenarios trackr_data file_type (before @ (scenario_num, nd) # after) [] =
      (dfs', Some e)"
    using assms(2,3) by (cases err) (simp_all add: read_scenarios_append before)
  then have "isl (read_parquet_files fs base_path cost_pattern file_type)"
    using assms(1,4) by (auto simp: read_parquet_files_def)
  moreover have "read_parquet_files fs base_path cost_pattern file_type = Inl IndexError"
    if "read_scenarios trackr_data file_type before [] = (dfs, None)"
    using that assms by (simp add: read_parquet_files_def read_scenarios_append)
  ultimately show ?thesis by blast
qed

theorem read_parquet_files_index_out_of_range_witness:
  "raw_output (fs_out_of_range ''output'' ''diurnal'') =
     Some ([(''0'', Dir [(''seed=0'', Dir [(''host.parquet'', Parquet host_table)])])] @
           (''1'', Dir [(''seed=0'', Dir [(''host.parquet'', Parquet host_table)])]) # []) \<and>
   isdigit ''1'' \<and> length [small_costefficient] \<le> nat_of_digits ''1'' \<and>
   read_trackr fs_out_of_range ''output'' ''diurnal'' = Inr [small_costefficient] \<and>
   read_scenarios [small_costefficient] ''host''
     [(''0'', Dir [(''seed=0'', Dir [(''host.parquet'', Parquet host_table)])])] [] =
     ([tag_table (Str ''small'') (Str ''CostEfficient'') 0 0 host_table], None) \<and>
   read_parquet_files fs_out_of_range ''output'' ''diurnal'' ''host'' = Inl IndexError"
  using read_parquet_files_index_out_of_range [of fs_out_of_range "''output''" "''diurnal''"
      "[(''0'', Dir [(''seed=0'', Dir [(''host.parquet'', Parquet host_table)])])]"
      "''1''" "Dir [(''seed=0'', Dir [(''host.parquet'', Parquet host_table)])]" "[]"
      "[small_costefficient]" "''host''"
      "[tag_table (Str ''small'') (Str ''CostEfficient'') 0 0 host_table]"]
  by (simp add: fs_out_of_range_def small_costefficient_def read_trackr_def string_eval)

text \<open>
  C5 as stated fails: the failure is not confined to the scenario out of range, and the
  table read before it is lost to the caller. With the scenario directory \<open>0\<close> alone the
  call returns the table of scenario 0; with a directory \<open>1\<close> listed after it, for which
  the registry of one scenario has no entry, the same call raises \<open>IndexError\<close> and
  returns nothing.
\<close>

theorem read_parquet_files_loses_loaded_tables_counterexample:
  "read_trackr fs_in_range ''output'' ''diurnal'' = Inr [small_costefficient] \<and>
   read_trackr fs_out_of_range ''output'' ''diurnal'' = Inr [small_costefficient] \<and>
   raw_output (fs_in_range ''output'' ''diurnal'') =
     Some [(''0'', Dir [(''seed=0'', Dir [(''host.parquet'', Parquet host_table)])])] \<and>
   raw_output (fs_out_of_range ''output'' ''diurnal'') =
     Some [(''0'', Dir [(''seed=0'', Dir [(''host.parquet'', Parquet host_table)])]),
           (''1'', Dir [(''seed=0'', Dir [(''host.parquet'', Parquet host_table)])])] \<and>
   read_parquet_files fs_in_range ''output'' ''diurnal'' ''host'' =
     Inr (concat_frames [tag_table (Str ''small'') (Str ''CostEfficient'') 0 0 host_table]) \<and>
   read_parquet_files fs_out_of_range ''output'' ''diurnal'' ''host'' = Inl IndexError"
  by (simp add: fs_in_range_def fs_out_of_range_def small_costefficient_def host_table_def
      loader_eval)

lemma read_seeds_no_table:
  "\<not> list_ex (seed_has_table file_type) entries \<Longrightarrow>
   read_seeds file_type topo sched scen entries dfs = (dfs, None)"
proof (induction entries)
  case Nil
  show ?case by simp
next
  case (Cons e entries)
  obtain seed_dir nd where e: "e = (seed_dir, nd)" by (cases e)
  from Cons show ?case
    unfolding e by (auto simp: seed_has_table_def)
qed

lemma read_scenarios_no_tables:
  "no_tables file_type listing \<Longrightarrow>
   fst (read_scenarios trackr_data file_type listing dfs) = dfs"
proof (induction listing)
  case Nil
  show ?case by simp
next
  case (Cons e listing)
  obtain scenario_num nd where e: "e = (scenario_num, nd)" by (cases e)
  from Cons.prems have rest: "no_tables file_type listing"
    and here: "\<not> scenario_has_table file_type (scenario_num, nd)"
    by (simp_all add: no_tables_def e)
  show ?case
  proof (cases nd)
    case (Dir entries)
    with here have "isdigit scenario_num \<Longrightarrow> \<not> list_ex (seed_has_table file_type) entries"
      by (simp add: scenario_has_table_def)
    then show ?thesis
      unfolding e Dir using Cons.IH [OF rest]
      by (simp add: read_seeds_no_table Let_def split: option.splits)
  qed (simp_all add: e Cons.IH [OF rest] Let_def split: option.splits)
qed

lemma load_seeds_no_host:
  "\<not> list_ex (seed_has_table ''host'') entries \<Longrightarrow>
   fst (load_seeds edir scenario_path scenario entries (hs, ts)) = hs"
proof (induction entries arbitrary: ts)
  case Nil
  show ?case by simp
next
  case (Cons e entries)
  obtain seed_dir nd where e: "e = (seed_dir, nd)" by (cases e)
  from Cons show ?case
    unfolding e by (auto simp: seed_has_table_def split: option.splits sum.splits)
qed

lemma load_seeds_no_task:
  "\<not> list_ex (seed_has_table ''task'') entries \<Longrightarrow>
   snd (load_seeds edir scenario_path scenario entries (hs, ts)) = ts"
proof (induction entries arbitrary: hs)
  case Nil
  show ?case by simp
next
  case (Cons e entries)
  obtain seed_dir nd where e: "e = (seed_dir, nd)" by (cases e)
  from Cons show ?case
    unfolding e by (auto simp: seed_has_table_def split: option.splits sum.splits)
qed

lemma load_scenarios_no_host:
  "no_tables ''host'' listing \<Longrightarrow>
   load_scenarios edir raw_root listing (hs, ts) = Inr (hs', ts') \<Longrightarrow> hs' = hs"
proof (induction listing arbitrary: ts)
  case Nil
  then show ?case by simp
next
  case (Cons e listing)
  obtain scenario nd where e: "e = (scenario, nd)" by (cases e)
  from Cons.prems(1) have rest: "no_tables ''host'' listing"
    and here: "\<not> scenario_has_table ''host'' (scenario, nd)"
    by (simp_all add: no_tables_def e)
  show ?case
  proof (cases "isdigit scenario")
    case False
    with Cons.prems(2) Cons.IH [OF rest] show ?thesis by (simp add: e)
  next
    case True
    with Cons.prems(2) obtain entries where nd: "nd = Dir entries"
      by (cases nd) (simp_all add: e)
    from here True have none: "\<not> list_ex (seed_has_table ''host'') entries"
      by (simp add: scenario_has_table_def nd)
    obtain h1 t1 where step:
      "load_seeds edir (path_join [raw_root, scenario]) scenario entries (hs, ts) = (h1, t1)"
      by (cases "load_seeds edir (path_join [raw_root, scenario]) scenario entries (hs, ts)")
    have "h1 = hs"
      using load_seeds_no_host [OF none, of edir "path_join [raw_root, scenario]" scenario hs ts]
        step by simp
    with Cons.prems(2) True Cons.IH [OF rest, of t1] step show ?thesis
      by (simp add: e nd)
  qed
qed

lemma load_scenarios_no_task:
  "no_tables ''task'' listing \<Longrightarrow>
   load_scenarios edir raw_root listing (hs, ts) = Inr (hs', ts') \<Longrightarrow> ts' = ts"
proof (induction listing arbitrary: hs)
  case Nil
  then show ?case by simp
next
  case (Cons e listing)
  obtain scenario nd where e: "e = (scenario, nd)" by (cases e)
  from Cons.prems(1) have rest: "no_tables ''task'' listing"
    and here: "\<not> scenario_has_table ''task'' (scenario, nd)"
    by (simp_all add: no_tables_def e)
  show ?case
  proof (cases "isdigit scenario")
    case False
    with Cons.prems(2) Cons.IH [OF rest] show ?thesis by (simp add: e)
  next
    case True
    with Cons.prems(2) obtain entries where nd: "nd = Dir entries"
      by (cases nd) (simp_all add: e)
    from here True have none: "\<not> list_ex (seed_has_table ''task'') entries"
      by (simp add: scenario_has_table_def nd)
    obtain h1 t1 where step:
      "load_seeds edir (path_join [raw_root, scenario]) scenario entries (hs, ts) = (h1, t1)"
      by (cases "load_seeds edir (path_join [raw_root, scenario]) scenario entries (hs, ts)")
    have "t1 = ts"
      using load_seeds_no_task [OF none, of edir "path_join [raw_root, scenario]" scenario hs ts]
        step by simp
    with Cons.prems(2) True Cons.IH [OF rest, of h1] step show ?thesis
      by (simp add: e nd)
  qed
qed

text \<open>
  C6. When the raw-output directory exists, no table of the requested kind is under it
  and the scan raises nothing else, \<open>read_parquet_files\<close> raises the \<open>ValueError\<close>
  "No <kind>.parquet files found for <pattern> pattern."; \<open>load_data\<close> raises the
  \<open>ValueError\<close> "No data loaded" when there is no host table or no task table. In
  neither case is an empty table returned.
\<close>

theorem no_tables_raises_empty_result:
  assumes "raw_output (fs base_path cost_pattern) = Some listing"
  shows "(read_trackr fs base_path cost_pattern = Inr trackr_data \<and>
          snd (read_scenarios trackr_data file_type listing []) = None \<and>
          no_tables file_type listing
          \<longrightarrow> read_parquet_files fs base_path cost_pattern file_type =
                Inl (ValueError (''No '' @ file_type @ ''.parquet files found for ''
                                  @ cost_pattern @ '' pattern.''))) \<and>
         (load_scenarios (fs base_path cost_pattern) (pattern_path base_path cost_pattern)
            listing ([], []) = Inr loaded \<and>
          (no_tables ''host'' listing \<or> no_tables ''task'' listing)
          \<longrightarrow> load_data fs base_path cost_pattern = Inl (ValueError ''No data loaded''))"
proof (intro conjI impI)
  assume a: "read_trackr fs base_path cost_pattern = Inr trackr_data \<and>
          snd (read_scenarios trackr_data file_type listing []) = None \<and>
          no_tables file_type listing"
  then have "fst (read_scenarios trackr_data file_type listing []) = []"
    by (simp add: read_scenarios_no_tables)
  with a have "read_scenarios trackr_data file_type listing [] = ([], None)"
    by (simp add: prod_eq_iff)
  with a assms show "read_parquet_files fs base_path cost_pattern file_type =
      Inl (ValueError (''No '' @ file_type @ ''.parquet files found for ''
                        @ cost_pattern @ '' pattern.''))"
    by (simp add: read_parquet_files_def)
next
  assume b: "load_scenarios (fs base_path cost_pattern) (pattern_path base_path cost_pattern)
            listing ([], []) = Inr loaded \<and>
          (no_tables ''host'' listing \<or> no_tables ''task'' listing)"
  obtain hs ts where l: "loaded = (hs, ts)" by (cases loaded)
  from b have "hs = [] \<or> ts = []"
    unfolding l using load_scenarios_no_host load_scenarios_no_task by blast
  with b assms show "load_data fs base_path cost_pattern = Inl (ValueError ''No data loaded'')"
    by (auto simp: load_data_def l)
qed

theorem no_tables_raises_empty_result_witness:
  "raw_output (fs_no_seeds ''output'' ''diurnal'') =
     Some [(''0'', Dir [(''logs'', Dir [])]), (''notes.txt'', Unreadable)] \<and>
   read_trackr fs_no_seeds ''output'' ''diurnal'' = Inr [small_costefficient] \<and>
   snd (read_scenarios [small_costefficient] ''host''
          [(''0'', Dir [(''logs'', Dir [])]), (''notes.txt'', Unreadable)] []) = None \<and>
   no_tables ''host'' [(''0'', Dir [(''logs'', Dir [])]), (''notes.txt'', Unreadable)] \<and>
   read_parquet_files fs_no_seeds ''output'' ''diurnal'' ''host'' =
     Inl (ValueError ''No host.parquet files found for diurnal pattern.'') \<and>
   load_scenarios (fs_no_seeds ''output'' ''diurnal'') (pattern_path ''output'' ''diurnal'')
     [(''0'', Dir [(''logs'', Dir [])]), (''notes.txt'', Unreadable)] ([], []) = Inr ([], []) \<and>
   load_data fs_no_seeds ''output'' ''diurnal'' = Inl (ValueError ''No data loaded'')"
  using no_tables_raises_empty_result [of fs_no_seeds "''output''" "''diurnal''"
      "[(''0'', Dir [(''logs'', Dir [])]), (''notes.txt'', Unreadable)]"
      "[small_costefficient]" "''host''" "([], [])"]
  by (simp add: fs_no_seeds_def small_costefficient_def read_trackr_def string_eval
      no_tables_def scenario_has_table_def seed_has_table_def)

text \<open>
  C7. For a registry entry whose \<^verbatim>\<open>allocationPolicy\<close> has no \<^verbatim>\<open>policyType\<close>,
  \<open>read_parquet_files\<close> raises \<open>KeyError\<close>, while \<open>get_scheduler_info\<close> answers
  \<open>Unknown\<close> for the same entry.
\<close>

theorem missing_policy_type_raises_key_error:
  "read_parquet_files fs_missing_policy ''output'' ''diurnal'' ''host'' =
     Inl (KeyError ''policyType'') \<and>
   get_scheduler_info (fs_missing_policy ''output'' ''diurnal'')
     (path_join [pattern_path ''output'' ''diurnal'', ''0'']) = ''Unknown''"
  by (simp add: fs_missing_policy_def more_loader_eval)

section \<open>Properties of the task completion statistics\<close>
























text \<open>
  C8. For a scenario label none of whose tasks has the final state \<open>COMPLETED\<close>, the
  statistics are computed without an exception and the mean, median, std, minimum and
  maximum of the completion times are all \<open>None\<close> (hence not 0).
\<close>

theorem no_completed_task_times_are_none:
  assumes "''task_id'' \<in> set (columns task_df)" and "''task_state'' \<in> set (columns task_df)"
    and "\<forall>g \<in> set (task_final_states (scenario_tasks task_df scenario)).
           final_cell (snd g) ''task_state'' \<noteq> Str ''COMPLETED''"
  shows "\<exists>m. scenario_metrics task_df scenario = Inr m \<and>
           avg_completion_time m = None \<and> median_completion_time m = None \<and>
           std_completion_time m = None \<and> min_completion_time m = None \<and>
           max_completion_time m = None"
proof -
  have "filter (\<lambda>g. final_cell (snd g) ''task_state'' = Str ''COMPLETED'')
          (task_final_states (scenario_tasks task_df scenario)) = []"
    using assms(3) by (simp add: filter_empty_conv)
  then show ?thesis
    using assms(1,2)
    by (simp add: scenario_metrics_def Let_def completion_times_of_def stat_or_none_def)
qed

section \<open>Properties of the comparison table\<close>

lemma collect_stats_keys: "collect_stats f ks = Inr kvs \<Longrightarrow> map fst kvs = ks"
  by (induction ks arbitrary: kvs) (auto split: sum.splits)

lemma scenario_stats_index_distinct:
  "scenario_stats task_df = Inr completion_stats_df \<Longrightarrow> distinct (map fst completion_stats_df)"
  by (auto simp: scenario_stats_def unique_def dest!: collect_stats_keys split: if_splits)

lemma filter_index_label:
  "distinct (map fst xs) \<Longrightarrow> (l, m) \<in> set xs \<Longrightarrow> filter (\<lambda>e. fst e = l) xs = [(l, m)]"
proof (induction xs)
  case Nil
  then show ?case by simp
next
  case (Cons x xs)
  show ?case
  proof (cases "x = (l, m)")
    case True
    with Cons.prems have "\<forall>e \<in> set xs. fst e \<noteq> l"
      by (auto simp: image_iff)
    with True show ?thesis
      by (simp add: filter_empty_conv)
  next
    case False
    with Cons.prems have in_xs: "(l, m) \<in> set xs" by simp
    with Cons.prems have "fst x \<noteq> l"
      by (auto simp: image_iff)
    with Cons.IH in_xs Cons.prems show ?thesis by simp
  qed
qed

lemma loc_completion_rate_scalar:
  "distinct (map fst completion_stats_df) \<Longrightarrow> (l, m) \<in> set completion_stats_df \<Longrightarrow>
   loc_completion_rate completion_stats_df l = Scalar (completion_rate m)"
  by (simp add: loc_completion_rate_def filter_index_label)

text \<open>
  C1. For every cost table and all completion statistics whose index has no scenario
  label twice (as the index of the frame built from the dict of
  \<open>analyze_task_completion\<close> never has), \<open>comparative_analysis\<close> does not fail: it returns
  a table with exactly one row per row of the cost table, in order, with the label,
  topology, scheduler and cost columns of that row; the completion rate of a row whose
  label is not in the index of the completion statistics is \<open>None\<close>, and that of a row
  whose label is in the index is the completion rate recorded there.
\<close>

theorem comparative_analysis_one_row_per_cost_row:
  assumes "distinct (map fst completion_stats_df)"
  shows "\<exists>out. comparative_analysis cost_metrics_df completion_stats_df = Inr out \<and>
           length out = length cost_metrics_df \<and>
           (\<forall>i < length out.
              cmp_scenario_label (out ! i) = scenario_label (cost_metrics_df ! i) \<and>
              cmp_topology (out ! i) = cost_topology (cost_metrics_df ! i) \<and>
              cmp_scheduler (out ! i) = cost_scheduler (cost_metrics_df ! i) \<and>
              cmp_avg_cost (out ! i) = cost_mean (cost_metrics_df ! i) \<and>
              cmp_cost_std (out ! i) = cost_std (cost_metrics_df ! i) \<and>
              cmp_cpu_utilization (out ! i) = cpu_utilization_mean (cost_metrics_df ! i) \<and>
              cmp_cost_efficiency (out ! i) = cost_efficiency (cost_metrics_df ! i) \<and>
              (Str (scenario_label (cost_metrics_df ! i)) \<notin> fst ` set completion_stats_df
               \<longrightarrow> cmp_completion_rate (out ! i) = None) \<and>
              (\<forall>m. (Str (scenario_label (cost_metrics_df ! i)), m) \<in> set completion_stats_df
               \<longrightarrow> cmp_completion_rate (out ! i) = Some (Scalar (completion_rate m))))"
proof -
  let ?f = "comparison_row_of completion_stats_df"
  have rate: "(Str (scenario_label r) \<notin> fst ` set completion_stats_df
               \<longrightarrow> cmp_completion_rate (?f r) = None) \<and>
              (\<forall>m. (Str (scenario_label r), m) \<in> set completion_stats_df
               \<longrightarrow> cmp_completion_rate (?f r) = Some (Scalar (completion_rate m)))" for r
    using assms by (auto simp: comparison_row_of_def loc_completion_rate_scalar image_iff)
  have "\<not> holds_series (?f r)" for r
  proof (cases "Str (scenario_label r) \<in> fst ` set completion_stats_df")
    case True
    then obtain m where "(Str (scenario_label r), m) \<in> set completion_stats_df"
      by (auto simp: image_iff)
    with rate [of r] show ?thesis
      by (simp add: holds_series_def)
  next
    case False
    with rate [of r] show ?thesis
      by (simp add: holds_series_def)
  qed
  then have "\<not> list_ex holds_series (map ?f cost_metrics_df)"
    by (simp add: list_ex_iff)
  then have "comparative_analysis cost_metrics_df completion_stats_df = Inr (map ?f cost_metrics_df)"
    by (simp add: comparative_analysis_def)
  moreover have "cmp_scenario_label (?f r) = scenario_label r \<and>
      cmp_topology (?f r) = cost_topology r \<and> cmp_scheduler (?f r) = cost_scheduler r \<and>
      cmp_avg_cost (?f r) = cost_mean r \<and> cmp_cost_std (?f r) = cost_std r \<and>
      cmp_cpu_utilization (?f r) = cpu_utilization_mean r \<and>
      cmp_cost_efficiency (?f r) = cost_efficiency r" for r
    by (simp add: comparison_row_of_def)
  ultimately show ?thesis
    using rate by simp
qed

section \<open>The statistics on the example tables\<close>

lemmas task_eval =
  scenario_metrics_def scenario_tasks_def task_final_states_def final_cell_def last_valid_def
  notna_key_def state_rate_def state_count_def completion_times_of_def stat_or_none_def
  series_mean_def series_median_def series_std_def series_min_def series_max_def
  mean_of_def median_of_def frame_eval

lemmas more_task_eval =
  analyze_task_completion_more_def exclude_baseline_def group_completion_metrics_def
  groupby_def np_mean_def np_median_def np_std_def mean_of_def median_of_def empty_frame_def
  frame_eval

theorem comparative_analysis_one_row_per_cost_row_witness:
  "distinct (map fst example_stats) \<and>
   scenario_stats example_tasks = Inr example_stats \<and>
   comparative_analysis example_costs example_stats =
     Inr [\<lparr> cmp_scenario_label = ''small_cost_diurnal_CostEfficient'',
             cmp_topology = ''small'', cmp_scheduler = ''CostEfficient'',
             cmp_avg_cost = Fin 150, cmp_cost_std = Fin 70.7107,
             cmp_cpu_utilization = Fin 60, cmp_cost_efficiency = Fin 0.4,
             cmp_completion_rate = Some (Scalar (1 / 2)) \<rparr>,
          \<lparr> cmp_scenario_label = ''medium_cost_diurnal_CostEfficient'',
             cmp_topology = ''medium'', cmp_scheduler = ''CostEfficient'',
             cmp_avg_cost = Fin 300, cmp_cost_std = NaN,
             cmp_cpu_utilization = Fin 90, cmp_cost_efficiency = Fin 0.3,
             cmp_completion_rate = None \<rparr>] \<and>
   length example_costs = 2"
  using comparative_analysis_one_row_per_cost_row [of example_stats example_costs]
  by (simp add: example_costs_def example_stats_def example_tasks_def comparative_analysis_def
      comparison_row_of_def loc_completion_rate_def holds_series_def scenario_stats_def task_eval)

theorem no_completed_task_times_are_none_witness:
  "''task_id'' \<in> set (columns example_tasks) \<and> ''task_state'' \<in> set (columns example_tasks) \<and>
   map (\<lambda>g. final_cell (snd g) ''task_state'')
     (task_final_states (scenario_tasks example_tasks (Str ''large_cost_diurnal_PredictiveCost'')))
     = [Str ''ERROR''] \<and>
   scenario_metrics example_tasks (Str ''large_cost_diurnal_PredictiveCost'') =
     Inr \<lparr> total_tasks = 1, completion_rate = 0, termination_rate = 0, error_rate = 1,
           avg_completion_time = None, median_completion_time = None,
           std_completion_time = None, min_completion_time = None,
           max_completion_time = None \<rparr>"
  using no_completed_task_times_are_none [of example_tasks "Str ''large_cost_diurnal_PredictiveCost''"]
  by (simp add: example_tasks_def task_eval)

section \<open>The completion rate of more\_analysis.py\<close>












section \<open>Properties of the drivers\<close>

lemma record_outcome_facts:
  "filter is_analyzing (logged (record_outcome p out st)) = filter is_analyzing (logged st)"
  "set (logged st) \<subseteq> set (logged (record_outcome p out st))"
  "all_efficiency_metrics (record_outcome p out st) =
     all_efficiency_metrics st @ (case out of Analysed e c \<Rightarrow> [e] | _ \<Rightarrow> [])"
  "all_completion_metrics (record_outcome p out st) =
     all_completion_metrics st @ (case out of Analysed e c \<Rightarrow> [c] | _ \<Rightarrow> [])"
  by (cases out; auto simp: is_analyzing_def)+

lemma analysis_loop_attempts:
  "filter is_analyzing (logged (analysis_loop calc fs base_path patterns st)) =
     filter is_analyzing (logged st) @ map (\<lambda>p. Info (''Analyzing '' @ p @ '' pattern'')) patterns"
  by (induction patterns arbitrary: st) (simp_all add: record_outcome_facts is_analyzing_def)

lemma analysis_loop_efficiency:
  "all_efficiency_metrics (analysis_loop calc fs base_path patterns st) =
     all_efficiency_metrics st @ map fst (analysed_frames calc fs base_path patterns)"
  by (induction patterns arbitrary: st)
     (simp_all add: record_outcome_facts split: outcome.splits)

lemma analysis_loop_completion:
  "all_completion_metrics (analysis_loop calc fs base_path patterns st) =
     all_completion_metrics st @ map snd (analysed_frames calc fs base_path patterns)"
  by (induction patterns arbitrary: st)
     (simp_all add: record_outcome_facts split: outcome.splits)

lemma analysis_loop_log_mono:
  "set (logged st) \<subseteq> set (logged (analysis_loop calc fs base_path patterns st))"
proof (induction patterns arbitrary: st)
  case Nil
  show ?case by simp
next
  case (Cons p patterns)
  let ?st1 = "st \<lparr> logged := logged st @ [Info (''Analyzing '' @ p @ '' pattern'')] \<rparr>"
  have "set (logged st) \<subseteq> set (logged ?st1)" by auto
  also have "\<dots> \<subseteq> set (logged (record_outcome p (analyze_pattern calc fs base_path p) ?st1))"
    by (rule record_outcome_facts)
  also have "\<dots> \<subseteq> set (logged (analysis_loop calc fs base_path (p # patterns) st))"
    using Cons.IH by simp
  finally show ?case .
qed

lemma analysis_loop_errors:
  "p \<in> set patterns \<Longrightarrow> analyze_pattern calc fs base_path p = Failed e \<Longrightarrow>
   Error (''Error analyzing '' @ p @ '' pattern'') e
     \<in> set (logged (analysis_loop calc fs base_path patterns st))"
proof (induction patterns arbitrary: st)
  case Nil
  then show ?case by simp
next
  case (Cons q patterns)
  show ?case
  proof (cases "p = q")
    case True
    let ?st1 = "st \<lparr> logged := logged st @ [Info (''Analyzing '' @ p @ '' pattern'')] \<rparr>"
    have "Error (''Error analyzing '' @ p @ '' pattern'') e
        \<in> set (logged (record_outcome p (Failed e) ?st1))"
      by simp
    then show ?thesis
      using analysis_loop_log_mono [of "record_outcome p (Failed e) ?st1" calc fs base_path patterns]
        Cons.prems(2) True
      by auto
  next
    case False
    with Cons show ?thesis by simp
  qed
qed

lemma experiment_loop_fails:
  "\<forall>q \<in> set before. \<exists>r. stages q = Inr r \<Longrightarrow> stages p = Inl e \<Longrightarrow>
   \<exists>st'. experiment_loop stages (before @ p # after) st = (Some e, st') \<and>
     map fst (saved st') = map fst (saved st) @ before \<and>
     filter is_analyzing (exp_log st') =
       filter is_analyzing (exp_log st)
       @ map (\<lambda>q. Info (''Analyzing '' @ q @ '' cost pattern...'')) (before @ [p])"
proof (induction before arbitrary: st)
  case Nil
  then show ?case by (simp add: is_analyzing_def)
next
  case (Cons q before)
  then obtain r where r: "stages q = Inr r" by auto
  let ?st1 = "st \<lparr> exp_log := exp_log st @ [Info (''Analyzing '' @ q @ '' cost pattern...''),
                                           Info (''Saving results for '' @ q @ '' pattern...'')],
                  saved := saved st @ [(q, r)] \<rparr>"
  from Cons.prems have "\<forall>q \<in> set before. \<exists>r. stages q = Inr r" by simp
  from Cons.IH [OF this Cons.prems(2), of ?st1]
  show ?case by (simp add: r is_analyzing_def)
qed

lemma experiment_loop_succeeds:
  "\<forall>q \<in> set patterns. \<exists>r. stages q = Inr r \<Longrightarrow>
   \<exists>st'. experiment_loop stages patterns st = (None, st') \<and>
     map fst (saved st') = map fst (saved st) @ patterns"
proof (induction patterns arbitrary: st)
  case Nil
  then show ?case by simp
next
  case (Cons q patterns)
  then obtain r where r: "stages q = Inr r" by auto
  let ?st1 = "st \<lparr> exp_log := exp_log st @ [Info (''Analyzing '' @ q @ '' cost pattern...''),
                                           Info (''Saving results for '' @ q @ '' pattern...'')],
                  saved := saved st @ [(q, r)] \<rparr>"
  from Cons.prems have "\<forall>q \<in> set patterns. \<exists>r. stages q = Inr r" by simp
  from Cons.IH [OF this, of ?st1]
  show ?case by (simp add: r)
qed

text \<open>
  C9, as amended. \<open>main\<close> of \<^verbatim>\<open>more_analysis.py\<close> returns (exit status 0) whatever
  happens to a pattern: it attempts all four patterns in order, logs an error for each
  pattern whose stage raised, and ends with the frames of exactly the patterns that
  were analysed. \<open>main\<close> of \<^verbatim>\<open>analyze_experiments.py\<close> logs the exception of the first
  pattern that fails and raises it again: the patterns before it are saved, the ones
  after it are not attempted, and the process ends with status 1.
\<close>

theorem drivers_after_stage_failure:
  "(fst (more_analysis_main calc fs) = Inr () \<and>
    exit_status (fst (more_analysis_main calc fs)) = 0 \<and>
    filter is_analyzing (logged (snd (more_analysis_main calc fs))) =
      map (\<lambda>p. Info (''Analyzing '' @ p @ '' pattern''))
        [''diurnal'', ''spike'', ''stable'', ''volatile''] \<and>
    all_efficiency_metrics (snd (more_analysis_main calc fs)) =
      map fst (analysed_frames calc fs ''output'' [''diurnal'', ''spike'', ''stable'', ''volatile'']) \<and>
    all_completion_metrics (snd (more_analysis_main calc fs)) =
      map snd (analysed_frames calc fs ''output'' [''diurnal'', ''spike'', ''stable'', ''volatile'']) \<and>
    (\<forall>p \<in> set [''diurnal'', ''spike'', ''stable'', ''volatile'']. \<forall>e.
       analyze_pattern calc fs ''output'' p = Failed e \<longrightarrow>
       Error (''Error analyzing '' @ p @ '' pattern'') e \<in> set (logged (snd (more_analysis_main calc fs))))) \<and>
   ([''stable'', ''volatile'', ''diurnal'', ''spike''] = before @ p # after \<and>
    (\<forall>q \<in> set before. \<exists>r. stages q = Inr r) \<and> stages p = Inl e \<longrightarrow>
      fst (analyze_experiments_main stages) = Inl e \<and>
      exit_status (fst (analyze_experiments_main stages)) = 1 \<and>
      map fst (saved (snd (analyze_experiments_main stages))) = before \<and>
      filter is_analyzing (exp_log (snd (analyze_experiments_main stages))) =
        map (\<lambda>q. Info (''Analyzing '' @ q @ '' cost pattern...'')) (before @ [p]) \<and>
      last (exp_log (snd (analyze_experiments_main stages))) = Error ''Error in main analysis'' e)"
proof (intro conjI)
  let ?ps = "[''diurnal'', ''spike'', ''stable'', ''volatile'']"
  let ?init = "\<lparr> logged = [Info ''Starting cost analysis - Comparing CostEfficient vs PredictiveCost''],
                   all_efficiency_metrics = [], all_completion_metrics = [] \<rparr>"
  let ?st = "analysis_loop calc fs ''output'' ?ps ?init"
  have main: "more_analysis_main calc fs = (Inr (), ?st \<lparr> logged := logged ?st @ [Info ''Analysis completed''] \<rparr>)"
    by (simp add: more_analysis_main_def Let_def)
  show "fst (more_analysis_main calc fs) = Inr ()"
    by (simp add: main)
  show "exit_status (fst (more_analysis_main calc fs)) = 0"
    by (simp add: main exit_status_def)
  show "filter is_analyzing (logged (snd (more_analysis_main calc fs))) =
      map (\<lambda>p. Info (''Analyzing '' @ p @ '' pattern'')) ?ps"
    unfolding main by (simp add: analysis_loop_attempts is_analyzing_def del: analysis_loop.simps)
  show "all_efficiency_metrics (snd (more_analysis_main calc fs)) =
      map fst (analysed_frames calc fs ''output'' ?ps)"
    unfolding main by (simp add: analysis_loop_efficiency del: analysis_loop.simps)
  show "all_completion_metrics (snd (more_analysis_main calc fs)) =
      map snd (analysed_frames calc fs ''output'' ?ps)"
    unfolding main by (simp add: analysis_loop_completion del: analysis_loop.simps)
  show "\<forall>p \<in> set ?ps. \<forall>e. analyze_pattern calc fs ''output'' p = Failed e \<longrightarrow>
       Error (''Error analyzing '' @ p @ '' pattern'') e \<in> set (logged (snd (more_analysis_main calc fs)))"
  proof (intro ballI allI impI)
    fix p e
    assume "p \<in> set ?ps" and "analyze_pattern calc fs ''output'' p = Failed e"
    from analysis_loop_errors [OF this, of ?init]
    show "Error (''Error analyzing '' @ p @ '' pattern'') e
        \<in> set (logged (snd (more_analysis_main calc fs)))"
      unfolding main by (simp del: analysis_loop.simps)
  qed
next
  let ?init = "\<lparr> exp_log = [Info ''Starting experiment analysis (main)...''], saved = [] \<rparr>
      :: 'a experiment_state"
  show "[''stable'', ''volatile'', ''diurnal'', ''spike''] = before @ p # after \<and>
    (\<forall>q \<in> set before. \<exists>r. stages q = Inr r) \<and> stages p = Inl e \<longrightarrow>
      fst (analyze_experiments_main stages) = Inl e \<and>
      exit_status (fst (analyze_experiments_main stages)) = 1 \<and>
      map fst (saved (snd (analyze_experiments_main stages))) = before \<and>
      filter is_analyzing (exp_log (snd (analyze_experiments_main stages))) =
        map (\<lambda>q. Info (''Analyzing '' @ q @ '' cost pattern...'')) (before @ [p]) \<and>
      last (exp_log (snd (analyze_experiments_main stages))) = Error ''Error in main analysis'' e"
  proof
    assume a: "[''stable'', ''volatile'', ''diurnal'', ''spike''] = before @ p # after \<and>
      (\<forall>q \<in> set before. \<exists>r. stages q = Inr r) \<and> stages p = Inl e"
    then have ok: "\<forall>q \<in> set before. \<exists>r. stages q = Inr r" and bad: "stages p = Inl e"
      by simp_all
    from experiment_loop_fails [OF ok bad, of after ?init]
    obtain st' where "experiment_loop stages (before @ p # after) ?init = (Some e, st')"
      and "map fst (saved st') = before"
      and "filter is_analyzing (exp_log st') =
        map (\<lambda>q. Info (''Analyzing '' @ q @ '' cost pattern...'')) (before @ [p])"
      by (auto simp: is_analyzing_def)
    with a show "fst (analyze_experiments_main stages) = Inl e \<and>
      exit_status (fst (analyze_experiments_main stages)) = 1 \<and>
      map fst (saved (snd (analyze_experiments_main stages))) = before \<and>
      filter is_analyzing (exp_log (snd (analyze_experiments_main stages))) =
        map (\<lambda>q. Info (''Analyzing '' @ q @ '' cost pattern...'')) (before @ [p]) \<and>
      last (exp_log (snd (analyze_experiments_main stages))) = Error ''Error in main analysis'' e"
      by (simp add: analyze_experiments_main_def exit_status_def is_analyzing_def)
  qed
qed

theorem drivers_after_stage_failure_witness:
  "[''stable'', ''volatile'', ''diurnal'', ''spike''] = [] @ ''stable'' # [''volatile'', ''diurnal'', ''spike''] \<and>
   first_stage ''stable'' = Inl FileNotFoundError \<and>
   fst (analyze_experiments_main first_stage) = Inl FileNotFoundError \<and>
   exit_status (fst (analyze_experiments_main first_stage)) = 1 \<and>
   map fst (saved (snd (analyze_experiments_main first_stage))) = [] \<and>
   analyze_pattern (\<lambda>df. df) fs_only_diurnal ''output'' ''spike'' = Failed FileNotFoundError \<and>
   Error ''Error analyzing spike pattern'' FileNotFoundError
     \<in> set (logged (snd (more_analysis_main (\<lambda>df. df) fs_only_diurnal))) \<and>
   map (\<lambda>df. map (\<lambda>r. cell_of r ''pattern'') (rows df))
     (all_completion_metrics (snd (more_analysis_main (\<lambda>df. df) fs_only_diurnal))) =
     [[Str ''diurnal'']] \<and>
   exit_status (fst (more_analysis_main (\<lambda>df. df) fs_only_diurnal)) = 0"
proof -
  have stable: "first_stage ''stable'' = Inl FileNotFoundError"
    by (simp add: first_stage_def fs_only_diurnal_def read_parquet_files_def read_trackr_def)
  have failed: "analyze_pattern (\<lambda>df. df) fs_only_diurnal ''output'' p = Failed FileNotFoundError"
    if "p \<noteq> ''diurnal''" for p
    using that by (simp add: analyze_pattern_def load_data_def fs_only_diurnal_def)
  have diurnal: "map (\<lambda>df. map (\<lambda>r. cell_of r ''pattern'') (rows df))
      (map snd (analysed_frames (\<lambda>df. df) fs_only_diurnal ''output''
         [''diurnal'', ''spike'', ''stable'', ''volatile''])) = [[Str ''diurnal'']]"
    by (simp add: failed)
       (simp add: analyze_pattern_def fs_only_diurnal_def small_costefficient_def host_table_def
         task_table_def more_loader_eval more_task_eval)
  from drivers_after_stage_failure [of "\<lambda>df. df" fs_only_diurnal "[]" "''stable''"
      "[''volatile'', ''diurnal'', ''spike'']" first_stage FileNotFoundError]
    stable failed [of "''spike''"] diurnal
  show ?thesis by (simp add: exit_status_def)
qed

text \<open>
  C9 as stated fails for \<^verbatim>\<open>analyze_experiments.py\<close>: when \<open>stable\<close>, the first pattern,
  cannot be loaded, nothing is saved, no other pattern is attempted, although
  \<open>diurnal\<close> would load, and the exit status is 1.
\<close>

theorem analyze_experiments_main_stops_counterexample:
  "first_stage ''stable'' = Inl FileNotFoundError \<and>
   \<not> isl (first_stage ''diurnal'') \<and>
   fst (analyze_experiments_main first_stage) = Inl FileNotFoundError \<and>
   exit_status (fst (analyze_experiments_main first_stage)) = 1 \<and>
   exit_status (fst (analyze_experiments_main first_stage)) \<noteq> 0 \<and>
   saved (snd (analyze_experiments_main first_stage)) = [] \<and>
   exp_log (snd (analyze_experiments_main first_stage)) =
     [Info ''Starting experiment analysis (main)...'',
      Info ''Analyzing stable cost pattern...'',
      Error ''Error in main analysis'' FileNotFoundError]"
proof -
  have stable: "first_stage ''stable'' = Inl FileNotFoundError"
    by (simp add: first_stage_def fs_only_diurnal_def read_parquet_files_def read_trackr_def)
  have diurnal: "\<not> isl (first_stage ''diurnal'')"
    by (simp add: first_stage_def fs_only_diurnal_def small_costefficient_def host_table_def
        loader_eval)
  from stable diurnal show ?thesis
    by (simp add: analyze_experiments_main_def exit_status_def)
qed

end
